theory Spec2Isabelle
  imports Complex_Main "HOL-Library.Char_ord" "HOL-Library.List_Lexorder"
begin

section \<open>Data model\<close>

text \<open>
  The pipeline works on pandas Series of floats indexed by date. A float is modelled
  as a real number; the one non-number the code itself handles, NaN as the marker
  of a missing observation (\<^verbatim>\<open>dropna\<close>), is \<open>None\<close>. A Series is the list of its
  (index, value) rows in order. A Series known to hold no NaN (the result of
  \<^verbatim>\<open>dropna\<close>) is a list of (index, number) rows.

  Rounding, overflow and NaN as the result of an arithmetic operation are outside
  this model. Directory creation (\<^verbatim>\<open>os.makedirs\<close>), the drawing calls of matplotlib
  other than \<^verbatim>\<open>savefig\<close>, and the bar plot and CSV files written at the end of the
  evaluator and of \<^verbatim>\<open>main\<close> are left out.
\<close>

type_synonym date = nat

type_synonym series = "(date \<times> real option) list"

type_synonym clean_series = "(date \<times> real) list"

text \<open>An uncaught Python exception is identified by the name of its class.\<close>

type_synonym exn = string

fun dropna :: "series \<Rightarrow> clean_series" where
  "dropna [] = []"
| "dropna ((d, None) # s) = dropna s"
| "dropna ((d, Some x) # s) = (d, x) # dropna s"

text \<open>\<^verbatim>\<open>s * c\<close> on a Series without NaN: every value is multiplied, the index is kept.\<close>

definition mul :: "clean_series \<Rightarrow> real \<Rightarrow> clean_series" where
  "mul s c = map (\<lambda>(d, x). (d, x * c)) s"

text \<open>\<^verbatim>\<open>xs[-1]\<close> and \<^verbatim>\<open>xs[0]\<close> (also \<^verbatim>\<open>.iloc[-1]\<close>, \<^verbatim>\<open>.index[-1]\<close>): IndexError on an
  empty sequence.\<close>

definition index_last :: "'a list \<Rightarrow> exn + 'a" where
  "index_last xs = (if xs = [] then Inl ''IndexError'' else Inr (last xs))"

definition index_first :: "'a list \<Rightarrow> exn + 'a" where
  "index_first xs = (case xs of [] \<Rightarrow> Inl ''IndexError'' | x # _ \<Rightarrow> Inr x)"

text \<open>\<^verbatim>\<open>a[-1, 0]\<close> on a two-dimensional array given as the list of its rows.\<close>

definition index_last_first :: "'a list list \<Rightarrow> exn + 'a" where
  "index_last_first rows =
     (case index_last rows of Inl e \<Rightarrow> Inl e | Inr row \<Rightarrow> index_first row)"

section \<open>Third-party calls and the call log\<close>

text \<open>
  The numerical work is done by third-party libraries (arch, statsmodels, scipy,
  scikit-learn, hmmlearn) and the figures are written by matplotlib. Their code is
  not part of the repository: each call the repository makes is a parameter of the
  model, a function that returns a value or raises. What the repository's own code
  does (which calls it makes, in which order, on which arguments, what it does with
  a failure and with the results) is modelled in full.
\<close>

text \<open>The keyword arguments the code passes to \<^verbatim>\<open>arch_model\<close>
  (\<^verbatim>\<open>o\<close> defaults to 0 in the library).\<close>

record arch_spec =
  kw_vol :: string
  kw_p :: nat
  kw_o :: nat
  kw_q :: nat
  kw_mean :: string
  kw_dist :: string

text \<open>The attributes of a fitted arch result that the code reads.\<close>

record arch_result =
  params :: "real list"
  conditional_volatility :: series
  std_resid :: series

text \<open>
  What \<^verbatim>\<open>acorr_ljungbox\<close> returns is unpacked, indexed and formatted by the code,
  and each of these can fail on a value of the wrong kind. A Python value is a
  float, a string, a sequence (tuple, list or one-dimensional array) or a
  DataFrame given by its columns.
\<close>

datatype pyval =
    Float real
  | Str string
  | Seq "pyval list"
  | Frame "(string \<times> real list) list"

text \<open>Iteration, as an unpacking assignment does it: a string gives its characters,
  a DataFrame its column labels, a float is not iterable.\<close>

definition iterate :: "pyval \<Rightarrow> exn + pyval list" where
  "iterate v =
     (case v of
        Float x \<Rightarrow> Inl ''TypeError''
      | Str s \<Rightarrow> Inr (map (\<lambda>c. Str [c]) s)
      | Seq xs \<Rightarrow> Inr xs
      | Frame cols \<Rightarrow> Inr (map (\<lambda>(label, col). Str label) cols))"

text \<open>\<^verbatim>\<open>a, b = v\<close>: ValueError unless \<open>v\<close> gives exactly two values.\<close>

definition unpack2 :: "pyval \<Rightarrow> exn + (pyval \<times> pyval)" where
  "unpack2 v =
     (case iterate v of
        Inl e \<Rightarrow> Inl e
      | Inr items \<Rightarrow>
          (case items of
             [a, b] \<Rightarrow> Inr (a, b)
           | _ \<Rightarrow> Inl ''ValueError''))"

text \<open>\<^verbatim>\<open>v[0]\<close>.\<close>

definition getitem0 :: "pyval \<Rightarrow> exn + pyval" where
  "getitem0 v =
     (case v of
        Float x \<Rightarrow> Inl ''TypeError''
      | Str s \<Rightarrow> (case s of [] \<Rightarrow> Inl ''IndexError'' | c # _ \<Rightarrow> Inr (Str [c]))
      | Seq xs \<Rightarrow> (case xs of [] \<Rightarrow> Inl ''IndexError'' | x # _ \<Rightarrow> Inr x)
      | Frame cols \<Rightarrow> Inl ''KeyError'')"

text \<open>The format specification \<^verbatim>\<open>:.3f\<close> in an f-string: a float is formatted (the
  text is only drawn), a string raises ValueError, other values TypeError.\<close>

definition format_f :: "pyval \<Rightarrow> exn + unit" where
  "format_f v =
     (case v of
        Float x \<Rightarrow> Inr ()
      | Str s \<Rightarrow> Inl ''ValueError''
      | Seq xs \<Rightarrow> Inl ''TypeError''
      | Frame cols \<Rightarrow> Inl ''TypeError'')"

record arch_lib =
  fit :: "arch_spec \<Rightarrow> clean_series \<Rightarrow> exn + arch_result"
    \<comment> \<open>\<^verbatim>\<open>arch_model(r, ...).fit(disp="off")\<close>\<close>
  forecast :: "arch_result \<Rightarrow> nat \<Rightarrow> exn + real list list"
    \<comment> \<open>\<^verbatim>\<open>res.forecast(horizon=h, reindex=False).variance.values\<close>\<close>
  acorr_ljungbox :: "real list \<Rightarrow> nat list \<Rightarrow> bool \<Rightarrow> exn + pyval"
    \<comment> \<open>\<^verbatim>\<open>acorr_ljungbox(x, lags=..., return_df=...)\<close>\<close>

record plot_lib =
  savefig :: "string \<Rightarrow> exn + unit"
    \<comment> \<open>\<^verbatim>\<open>plt.savefig(path)\<close>\<close>
  probplot :: "real list \<Rightarrow> exn + unit"
    \<comment> \<open>\<^verbatim>\<open>stats.probplot(x, dist="norm", plot=plt)\<close>\<close>

text \<open>\<^verbatim>\<open>os.path.join(a, b)\<close> for two components (POSIX): an absolute second
  component replaces the first.\<close>

definition path_join :: "string \<Rightarrow> string \<Rightarrow> string" where
  "path_join a b =
     (if b \<noteq> [] \<and> hd b = CHR ''/'' then b
      else if a = [] \<or> last a = CHR ''/'' then a @ b
      else a @ ''/'' @ b)"

text \<open>The log of the third-party calls a run makes, in order, with their arguments.\<close>

datatype event =
    ArchFit arch_spec clean_series
  | Forecast arch_result nat
  | LjungBox "real list" "nat list" bool
  | ProbPlot "real list"
  | SaveFig string
  | ScalerFitTransform "(real \<times> real) list"
  | HmmFit nat string nat nat "(real \<times> real) list"
  | HmmPredict "(real \<times> real) list"
  | HmmPredictProba "(real \<times> real) list"

text \<open>A run: the calls made, and the value returned or the exception raised.\<close>

type_synonym 'a run = "event list \<times> (exn + 'a)"

definition ret :: "'a \<Rightarrow> 'a run" where
  "ret x = ([], Inr x)"

definition lift :: "exn + 'a \<Rightarrow> 'a run" where
  "lift r = ([], r)"

definition call :: "event \<Rightarrow> exn + 'a \<Rightarrow> 'a run" where
  "call ev r = ([ev], r)"

text \<open>Sequencing: an exception ends the run; nothing after it is executed.\<close>

definition bind :: "'a run \<Rightarrow> ('a \<Rightarrow> 'b run) \<Rightarrow> 'b run" where
  "bind m f =
     (case snd m of
        Inl e \<Rightarrow> (fst m, Inl e)
      | Inr x \<Rightarrow> (fst m @ fst (f x), snd (f x)))"

section \<open>garch\_model.py\<close>

record forecast_record =
  asset :: string
  model :: string
  last_date :: date
  one_day_ahead_vol_forecast_pct :: real

definition garch11 :: arch_spec where
  "garch11 = \<lparr>kw_vol = ''GARCH'', kw_p = 1, kw_o = 0, kw_q = 1, kw_mean = ''Constant'', kw_dist = ''normal''\<rparr>"

definition egarch :: arch_spec where
  "egarch = \<lparr>kw_vol = ''EGARCH'', kw_p = 1, kw_o = 0, kw_q = 1, kw_mean = ''Constant'', kw_dist = ''normal''\<rparr>"

definition gjr :: arch_spec where
  "gjr = \<lparr>kw_vol = ''GARCH'', kw_p = 1, kw_o = 1, kw_q = 1, kw_mean = ''Constant'', kw_dist = ''normal''\<rparr>"

text \<open>
  The body of the loop over \<^verbatim>\<open>models_dict.items()\<close>, for one model, in the order
  of the source: the forecast and its last variance, the forecast record (with the
  last date of the conditional volatility), the volatility figure, the Ljung-Box
  call on the non-missing standardized residuals and the unpacking of its result,
  the QQ-plot, the title with \<^verbatim>\<open>lb_p[0]\<close> formatted by \<^verbatim>\<open>:.3f\<close>, and the QQ-plot
  figure. \<^verbatim>\<open>np.sqrt\<close> is the real square root (the variance forecast of a fitted
  model is not negative; numpy's NaN for a negative argument has no counterpart
  here).
\<close>

definition loop_body ::
  "arch_lib \<Rightarrow> plot_lib \<Rightarrow> string \<Rightarrow> string \<Rightarrow> string \<Rightarrow> arch_result \<Rightarrow>
   (forecast_record \<times> series) run" where
  "loop_body lib plt figs_dir asset_name model_name res =
     (let cond_vol = conditional_volatility res in
      bind (call (Forecast res 1) (forecast lib res 1)) (\<lambda>variance_values.
      bind (lift (index_last_first variance_values)) (\<lambda>var_fcast.
      let vol_fcast = sqrt var_fcast in
      bind (lift (index_last (map fst cond_vol))) (\<lambda>last_index.
      let record = \<lparr>asset = asset_name, model = model_name, last_date = last_index,
                     one_day_ahead_vol_forecast_pct = vol_fcast\<rparr>;
          vol_png = path_join figs_dir (asset_name @ ''_'' @ model_name @ ''_volatility.png'') in
      bind (call (SaveFig vol_png) (savefig plt vol_png)) (\<lambda>saved.
      let resid = map snd (dropna (std_resid res)) in
      bind (call (LjungBox resid [10] False) (acorr_ljungbox lib resid [10] False)) (\<lambda>result.
      bind (lift (unpack2 result)) (\<lambda>(lb_stat, lb_p).
      bind (call (ProbPlot resid) (probplot plt resid)) (\<lambda>plotted.
      bind (lift (getitem0 lb_p)) (\<lambda>lb_p0.
      bind (lift (format_f lb_p0)) (\<lambda>title.
      let qq_png = path_join figs_dir (asset_name @ ''_'' @ model_name @ ''_qqplot.png'') in
      bind (call (SaveFig qq_png) (savefig plt qq_png)) (\<lambda>saved.
      ret (record, cond_vol))))))))))))"

text \<open>The loop: records and volatilities are appended in the order of the dict.\<close>

fun model_loop ::
  "arch_lib \<Rightarrow> plot_lib \<Rightarrow> string \<Rightarrow> string \<Rightarrow> (string \<times> arch_result) list \<Rightarrow>
   (forecast_record list \<times> (string \<times> series) list) run" where
  "model_loop lib plt figs_dir asset_name [] = ret ([], [])"
| "model_loop lib plt figs_dir asset_name ((model_name, res) # rest) =
     bind (loop_body lib plt figs_dir asset_name model_name res) (\<lambda>(record, cond_vol).
     bind (model_loop lib plt figs_dir asset_name rest) (\<lambda>(forecasts_records, cond_vol_dict).
     ret (record # forecasts_records, (model_name, cond_vol) # cond_vol_dict)))"

text \<open>\<^verbatim>\<open>fit_garch_models\<close> returns \<^verbatim>\<open>(models_dict, forecasts_df, cond_vol_dict)\<close>.
  Its parameter \<^verbatim>\<open>results_dir\<close> is used for directory creation only.\<close>

definition fit_garch_models ::
  "arch_lib \<Rightarrow> plot_lib \<Rightarrow> series \<Rightarrow> string \<Rightarrow> string \<Rightarrow>
   ((string \<times> arch_result) list \<times> forecast_record list \<times> (string \<times> series) list) run" where
  "fit_garch_models lib plt returns asset_name figs_dir =
     (let r = mul (dropna returns) 100 in
      bind (call (ArchFit garch11 r) (fit lib garch11 r)) (\<lambda>garch11_res.
      bind (call (ArchFit egarch r) (fit lib egarch r)) (\<lambda>egarch_res.
      bind (call (ArchFit gjr r) (fit lib gjr r)) (\<lambda>gjr_res.
      let models_dict = [(''GARCH11'', garch11_res), (''EGARCH'', egarch_res),
                         (''GJRGARCH'', gjr_res)] in
      bind (model_loop lib plt figs_dir asset_name models_dict)
        (\<lambda>(forecasts_records, cond_vol_dict).
      ret (models_dict, forecasts_records, cond_vol_dict))))))"

section \<open>diagnostics.py\<close>

text \<open>
  \<^verbatim>\<open>returns ** 2\<close>, then \<^verbatim>\<open>.rolling(window).sum()\<close>, then \<^verbatim>\<open>** 0.5\<close>. A rolling sum
  is NaN until the window is full and wherever the window holds a NaN.
\<close>

definition rolling_sum :: "nat \<Rightarrow> series \<Rightarrow> series" where
  "rolling_sum window s =
     map (\<lambda>i. (fst (s ! i),
                if i + 1 < window then None
                else (let w = map snd (take window (drop (i + 1 - window) s))
                      in if None \<in> set w then None else Some (sum_list (map the w)))))
         [0 ..< length s]"

definition realized_volatility :: "series \<Rightarrow> nat \<Rightarrow> series" where
  "realized_volatility returns window =
     map (\<lambda>(d, v). (d, map_option sqrt v))
         (rolling_sum window (map (\<lambda>(d, v). (d, map_option (\<lambda>x. x\<^sup>2) v)) returns))"

text \<open>\<^verbatim>\<open>pd.concat(frames, ignore_index=True)\<close>: the rows of the frames, in order;
  pandas raises ValueError when there is nothing to concatenate.\<close>

definition pd_concat :: "'a list list \<Rightarrow> exn + 'a list" where
  "pd_concat frames = (if frames = [] then Inl ''ValueError'' else Inr (concat frames))"

text \<open>A row of \<^verbatim>\<open>df_all\<close> once the three columns have been added.\<close>

record error_row = forecast_record +
  realized_vol_tail_pct :: real
  abs_err :: real
  sq_err :: real

definition add_errors :: "real \<Rightarrow> forecast_record \<Rightarrow> error_row" where
  "add_errors tail_rv row =
     forecast_record.extend row
       (error_row.fields tail_rv
          \<bar>one_day_ahead_vol_forecast_pct row - tail_rv\<bar>
          ((one_day_ahead_vol_forecast_pct row - tail_rv)\<^sup>2))"

text \<open>\<^verbatim>\<open>groupby("model")\<close>: one group for each model name, the names in ascending
  order, each group holding its rows in their order.\<close>

definition groupby_model :: "error_row list \<Rightarrow> (string \<times> error_row list) list" where
  "groupby_model df =
     map (\<lambda>k. (k, filter (\<lambda>row. model row = k) df)) (sort (remdups (map model df)))"

text \<open>The mean of a group's column (a group is never empty).\<close>

definition mean :: "real list \<Rightarrow> real" where
  "mean xs = sum_list xs / real (length xs)"

text \<open>A row of the summary: the model, its mean \<^verbatim>\<open>abs_err\<close> and its \<^verbatim>\<open>rmse\<close>.\<close>

record summary_row =
  summary_model :: string
  mean_abs_err :: real
  rmse :: real

definition summarise :: "error_row list \<Rightarrow> summary_row list" where
  "summarise df =
     map (\<lambda>(k, rows).
            \<lparr>summary_model = k,
             mean_abs_err = mean (map abs_err rows),
             rmse = sqrt (mean (map sq_err rows))\<rparr>)
         (groupby_model df)"

definition evaluate_forecasts ::
  "forecast_record list list \<Rightarrow> series \<Rightarrow> exn + summary_row list" where
  "evaluate_forecasts forecasts_df_list realized_vol_series =
     (case pd_concat forecasts_df_list of
        Inl e \<Rightarrow> Inl e
      | Inr df_all \<Rightarrow>
          (case index_last (dropna realized_vol_series) of
             Inl e \<Rightarrow> Inl e
           | Inr (d, v) \<Rightarrow>
               (let tail_rv = v * 100
                in Inr (summarise (map (add_errors tail_rv) df_all)))))"

section \<open>regime\_switching.py\<close>

text \<open>The fitted attributes of a \<^verbatim>\<open>GaussianHMM\<close>.\<close>

record hmm_model =
  startprob :: "real list"
  transmat :: "real list list"
  means :: "real list list"
  covars :: "real list list list"

record hmm_lib =
  fit_transform :: "(real \<times> real) list \<Rightarrow> exn + (real \<times> real) list"
    \<comment> \<open>\<^verbatim>\<open>StandardScaler().fit_transform(frame)\<close>\<close>
  hmm_fit :: "nat \<Rightarrow> string \<Rightarrow> nat \<Rightarrow> nat \<Rightarrow> (real \<times> real) list \<Rightarrow> exn + hmm_model"
    \<comment> \<open>\<^verbatim>\<open>GaussianHMM(n_components, covariance_type, n_iter, random_state).fit(X)\<close>\<close>
  predict :: "hmm_model \<Rightarrow> (real \<times> real) list \<Rightarrow> exn + nat list"
  predict_proba :: "hmm_model \<Rightarrow> (real \<times> real) list \<Rightarrow> exn + real list list"

text \<open>
  The index expressions of the three plots and the two frames of the result raise
  on library results of the wrong shape. A two-dimensional array is the list of its
  rows.

  \<^verbatim>\<open>posterior_probs[:, state]\<close> and \<^verbatim>\<open>trans_mat[i, j]\<close> for every state below
  \<^verbatim>\<open>n_states\<close>: IndexError when the array has fewer columns (or rows).
\<close>

definition columns_below :: "nat \<Rightarrow> 'a list list \<Rightarrow> exn + unit" where
  "columns_below n rows =
     (if n = 0 \<or> list_all (\<lambda>row. n \<le> length row) rows then Inr () else Inl ''IndexError'')"

definition entries_below :: "nat \<Rightarrow> 'a list list \<Rightarrow> exn + unit" where
  "entries_below n rows =
     (if n = 0 \<or> (n \<le> length rows \<and> list_all (\<lambda>row. n \<le> length row) rows) then Inr ()
      else Inl ''IndexError'')"

text \<open>\<^verbatim>\<open>r.index[hidden_states == state]\<close> for every state below \<^verbatim>\<open>n_states\<close>:
  IndexError when the mask and the index differ in length.\<close>

definition masks_below :: "nat \<Rightarrow> 'a list \<Rightarrow> 'b list \<Rightarrow> exn + unit" where
  "masks_below n index states =
     (if n = 0 \<or> length states = length index then Inr () else Inl ''IndexError'')"

text \<open>\<^verbatim>\<open>pd.DataFrame({"date": index, "hidden_state": values}).set_index("date")\<close>:
  ValueError when the two differ in length.\<close>

definition frame_of :: "'a list \<Rightarrow> 'b list \<Rightarrow> exn + ('a \<times> 'b) list" where
  "frame_of index values =
     (if length values = length index then Inr (zip index values) else Inl ''ValueError'')"

text \<open>\<^verbatim>\<open>pd.DataFrame(rows, index=index, columns=[...])\<close> with \<open>n\<close> column labels:
  ValueError when the shape of the rows is not that of index and columns.\<close>

definition frame_of_rows :: "'a list \<Rightarrow> nat \<Rightarrow> 'b list list \<Rightarrow> exn + ('a \<times> 'b list) list" where
  "frame_of_rows index n rows =
     (if length rows = length index \<and> list_all (\<lambda>row. length row = n) rows
      then Inr (zip index rows) else Inl ''ValueError'')"

text \<open>The dict \<^verbatim>\<open>fit_hmm_regimes\<close> returns.\<close>

record regimes =
  fitted :: hmm_model
  posterior_probs :: "(date \<times> real list) list"
  regime_series :: "(date \<times> nat) list"
  trans_mat :: "real list list"

definition fit_hmm_regimes ::
  "hmm_lib \<Rightarrow> plot_lib \<Rightarrow> series \<Rightarrow> nat \<Rightarrow> string \<Rightarrow> string \<Rightarrow> regimes run" where
  "fit_hmm_regimes lib plt returns n_states asset_name figs_dir =
     (let r = dropna returns;
          frame = map (\<lambda>(d, ret). (ret, ret\<^sup>2)) r
      in
      bind (call (ScalerFitTransform frame) (fit_transform lib frame)) (\<lambda>X.
      bind (call (HmmFit n_states ''full'' 200 42 X) (hmm_fit lib n_states ''full'' 200 42 X))
        (\<lambda>hmm.
      bind (call (HmmPredict X) (predict lib hmm X)) (\<lambda>hidden_states.
      bind (call (HmmPredictProba X) (predict_proba lib hmm X)) (\<lambda>probs.
      bind (lift (columns_below n_states probs)) (\<lambda>plotted.
      let probs_png = path_join figs_dir (asset_name @ ''_regime_probs.png'') in
      bind (call (SaveFig probs_png) (savefig plt probs_png)) (\<lambda>saved.
      bind (lift (masks_below n_states (map fst r) hidden_states)) (\<lambda>plotted.
      let scatter_png = path_join figs_dir (asset_name @ ''_regime_scatter.png'') in
      bind (call (SaveFig scatter_png) (savefig plt scatter_png)) (\<lambda>saved.
      let matrix = transmat hmm in
      bind (lift (entries_below n_states matrix)) (\<lambda>plotted.
      let matrix_png = path_join figs_dir (asset_name @ ''_transition_matrix.png'') in
      bind (call (SaveFig matrix_png) (savefig plt matrix_png)) (\<lambda>saved.
      bind (lift (frame_of (map fst r) hidden_states)) (\<lambda>regime_df.
      bind (lift (frame_of_rows (map fst r) n_states probs)) (\<lambda>posterior_df.
      ret \<lparr>fitted = hmm,
           posterior_probs = posterior_df,
           regime_series = regime_df,
           trans_mat = matrix\<rparr>)))))))))))))"

section \<open>visualization.py and main.py\<close>

text \<open>\<^verbatim>\<open>plot_conditional_vol_vs_realized\<close> draws and saves one figure.\<close>

definition plot_conditional_vol_vs_realized :: "plot_lib \<Rightarrow> string \<Rightarrow> string \<Rightarrow> unit run" where
  "plot_conditional_vol_vs_realized plt asset_name figs_dir =
     (let png = path_join figs_dir (asset_name @ ''_cond_vs_realized.png'')
      in call (SaveFig png) (savefig plt png))"

text \<open>
  \<^verbatim>\<open>load_data\<close> downloads the prices and computes the log returns; its outcome (the
  SPY and the BTC return series, or the exception it raised) is a parameter, and so
  is \<^verbatim>\<open>BASE_DIR\<close>. The value is the table written to \<^verbatim>\<open>forecasts.csv\<close>: the rows
  of the two summaries, each with its asset.
\<close>

definition main ::
  "exn + (series \<times> series) \<Rightarrow> arch_lib \<Rightarrow> hmm_lib \<Rightarrow> plot_lib \<Rightarrow> string \<Rightarrow>
   (string \<times> summary_row) list run" where
  "main load_data alib hlib plt base_dir =
     (let results_dir = path_join base_dir ''results'';
          figs_dir = path_join results_dir ''figures'' in
      bind (lift load_data) (\<lambda>(spy_ret, btc_ret).
      bind (fit_garch_models alib plt spy_ret ''SPY'' figs_dir)
        (\<lambda>(spy_models, spy_fc, spy_cond_vol).
      bind (fit_garch_models alib plt btc_ret ''BTC'' figs_dir)
        (\<lambda>(btc_models, btc_fc, btc_cond_vol).
      let spy_rv = realized_volatility spy_ret 5;
          btc_rv = realized_volatility btc_ret 5 in
      bind (plot_conditional_vol_vs_realized plt ''SPY'' figs_dir) (\<lambda>plotted.
      bind (plot_conditional_vol_vs_realized plt ''BTC'' figs_dir) (\<lambda>plotted.
      bind (fit_hmm_regimes hlib plt spy_ret 2 ''SPY'' figs_dir) (\<lambda>spy_hmm.
      bind (fit_hmm_regimes hlib plt btc_ret 2 ''BTC'' figs_dir) (\<lambda>btc_hmm.
      bind (lift (evaluate_forecasts [spy_fc] spy_rv)) (\<lambda>spy_eval.
      bind (lift (evaluate_forecasts [btc_fc] btc_rv)) (\<lambda>btc_eval.
      ret (map (Pair ''SPY'') spy_eval @ map (Pair ''BTC'') btc_eval)))))))))))"

section \<open>Sample inputs\<close>

text \<open>
  Concrete stand-ins for the third-party calls, used to run the functions above on
  sample inputs. A fit returns a result with one conditional volatility and one
  standardized residual for each observation it was given.
\<close>

definition sample_result :: "clean_series \<Rightarrow> arch_result" where
  "sample_result r =
     \<lparr>params = [], conditional_volatility = map (\<lambda>(d, x). (d, Some 1)) r,
      std_resid = map (\<lambda>(d, x). (d, Some x)) r\<rparr>"

text \<open>Every call succeeds; the variance forecast is 4, and the Ljung-Box call
  returns the pair of the statistics and the p-values.\<close>

definition lib_ok :: arch_lib where
  "lib_ok =
     \<lparr>fit = (\<lambda>spec r. Inr (sample_result r)),
      forecast = (\<lambda>res h. Inr [[4]]),
      acorr_ljungbox = (\<lambda>xs lags return_df. Inr (Seq [Seq [Float 1], Seq [Float (1 / 2)]]))\<rparr>"

definition plt_ok :: plot_lib where
  "plt_ok = \<lparr>savefig = (\<lambda>path. Inr ()), probplot = (\<lambda>xs. Inr ())\<rparr>"

text \<open>The EGARCH fit raises; every other call succeeds.\<close>

definition lib_egarch_fails :: arch_lib where
  "lib_egarch_fails =
     \<lparr>fit = (\<lambda>spec r. if kw_vol spec = ''EGARCH'' then Inl ''ConvergenceError''
                       else Inr (sample_result r)),
      forecast = (\<lambda>res h. Inr [[4]]),
      acorr_ljungbox = (\<lambda>xs lags return_df. Inr (Seq [Seq [Float 1], Seq [Float (1 / 2)]]))\<rparr>"

text \<open>The fit raises on a series whose last date is 9 (the second asset below);
  every other call succeeds.\<close>

definition lib_second_fails :: arch_lib where
  "lib_second_fails =
     \<lparr>fit = (\<lambda>spec r. if map fst r = [9] then Inl ''ConvergenceError''
                       else Inr (sample_result r)),
      forecast = (\<lambda>res h. Inr [[4]]),
      acorr_ljungbox = (\<lambda>xs lags return_df. Inr (Seq [Seq [Float 1], Seq [Float (1 / 2)]]))\<rparr>"

text \<open>The Ljung-Box call raises its own ValueError on fewer observations than the
  largest lag.\<close>

definition lib_lags_checked :: arch_lib where
  "lib_lags_checked =
     \<lparr>fit = (\<lambda>spec r. Inr (sample_result r)),
      forecast = (\<lambda>res h. Inr [[4]]),
      acorr_ljungbox = (\<lambda>xs lags return_df.
         if length xs < Max (set lags) then Inl ''ValueError''
         else Inr (Seq [Seq [Float 1], Seq [Float (1 / 2)]]))\<rparr>"

text \<open>A scaler that centres every column on 0 without rescaling, and an HMM whose
  fitted means are the first row it was given and that puts every observation in
  state 0.\<close>

definition sample_hmm :: "(real \<times> real) list \<Rightarrow> hmm_model" where
  "sample_hmm X =
     \<lparr>startprob = [1, 0], transmat = [[1, 0], [0, 1]],
      means = map (\<lambda>(a, b). [a, b]) (take 1 X),
      covars = [[[1, 0], [0, 1]], [[1, 0], [0, 1]]]\<rparr>"

definition hmm_ok :: hmm_lib where
  "hmm_ok =
     \<lparr>fit_transform = (\<lambda>frame. Inr (map (\<lambda>(a, b). (a - mean (map fst frame),
                                                     b - mean (map snd frame))) frame)),
      hmm_fit = (\<lambda>n_components covariance_type n_iter random_state X. Inr (sample_hmm X)),
      predict = (\<lambda>hmm X. Inr (map (\<lambda>x. 0) X)),
      predict_proba = (\<lambda>hmm X. Inr (map (\<lambda>x. [1, 0]) X))\<rparr>"

text \<open>Four returns, the second one missing: three non-missing values, fewer than
  the lag count 10 and than the rolling window 5.\<close>

definition short_returns :: series where
  "short_returns = [(0, Some (1 / 100)), (1, None), (2, Some (- 2 / 100)), (3, Some (3 / 100))]"

text \<open>One return, on date 9.\<close>

definition second_returns :: series where
  "second_returns = [(9, Some (1 / 100))]"

text \<open>Two forecast records and a realized-volatility series whose last non-missing
  value is 0.03.\<close>

definition sample_forecasts :: "forecast_record list" where
  "sample_forecasts =
     [\<lparr>asset = ''SPY'', model = ''GARCH11'', last_date = 3, one_day_ahead_vol_forecast_pct = 2\<rparr>,
      \<lparr>asset = ''SPY'', model = ''EGARCH'', last_date = 3, one_day_ahead_vol_forecast_pct = 3\<rparr>]"

definition sample_rv :: series where
  "sample_rv = [(0, None), (1, Some (1 / 100)), (2, Some (3 / 100)), (3, None)]"

text \<open>Two returns, 0.1 and -0.1, around a missing one.\<close>

definition sample_returns :: series where
  "sample_returns = [(0, Some (1 / 10)), (1, None), (2, Some (- 1 / 10))]"

section \<open>Sequencing and the loop over the models\<close>

lemma bind_Inl [simp]: "bind (l, Inl e) f = (l, Inl e)"
  by (simp add: bind_def)

lemma bind_Inr [simp]: "bind (l, Inr x) f = (l @ fst (f x), snd (f x))"
  by (simp add: bind_def)

lemma snd_bind_Inr: "snd (bind m f) = Inr y \<longleftrightarrow> (\<exists>x. snd m = Inr x \<and> snd (f x) = Inr y)"
  by (cases m) (auto simp: bind_def split: sum.splits)

lemma snd_bind_Inl:
  "snd (bind m f) = Inl e \<longleftrightarrow> snd m = Inl e \<or> (\<exists>x. snd m = Inr x \<and> snd (f x) = Inl e)"
  by (cases m) (auto simp: bind_def split: sum.splits)

lemma bind_raise: "snd m = Inl e \<Longrightarrow> bind m f = (fst m, Inl e)"
  by (simp add: bind_def)

lemma bind_return: "snd m = Inr x \<Longrightarrow> bind m f = (fst m @ fst (f x), snd (f x))"
  by (simp add: bind_def)

lemma bind_call_Inl: "r = Inl e \<Longrightarrow> bind (call ev r) f = ([ev], Inl e)"
  by (simp add: call_def)

lemma bind_call_Inr: "r = Inr x \<Longrightarrow> bind (call ev r) f = (ev # fst (f x), snd (f x))"
  by (simp add: call_def)

lemma bind_lift_Inl: "r = Inl e \<Longrightarrow> bind (lift r) f = ([], Inl e)"
  by (simp add: lift_def)

lemma bind_lift_Inr: "bind (lift (Inr x)) f = f x"
  by (simp add: lift_def)

lemma bind_event:
  "ev \<in> set (fst (bind m f))
     \<Longrightarrow> ev \<in> set (fst m) \<or> (\<exists>x. snd m = Inr x \<and> ev \<in> set (fst (f x)))"
  by (auto simp: bind_def split: sum.splits)

lemma bind_prefix: "\<exists>rest. fst (bind m f) = fst m @ rest"
  by (simp add: bind_def split: sum.splits)

lemma bind_first_events: "ev \<in> set (fst m) \<Longrightarrow> ev \<in> set (fst (bind m f))"
  by (simp add: bind_def split: sum.splits)

lemma bind_later_events:
  "snd m = Inr x \<Longrightarrow> ev \<in> set (fst (f x)) \<Longrightarrow> ev \<in> set (fst (bind m f))"
  by (simp add: bind_def)

lemma index_last_Inl: "index_last xs = Inl e \<Longrightarrow> e = ''IndexError''"
  by (simp add: index_last_def split: if_splits)

lemma index_first_Inl: "index_first xs = Inl e \<Longrightarrow> e = ''IndexError''"
  by (simp add: index_first_def split: list.splits)

lemma index_last_first_Inl: "index_last_first rows = Inl e \<Longrightarrow> e = ''IndexError''"
  by (auto simp: index_last_first_def split: sum.splits
      dest: index_last_Inl index_first_Inl)

lemma loop_body_Inr:
  assumes "snd (loop_body lib plt figs a n res) = Inr (rec, cv)"
  shows "(\<exists>V v. forecast lib res 1 = Inr V \<and> index_last_first V = Inr v
           \<and> one_day_ahead_vol_forecast_pct rec = sqrt v)
       \<and> model rec = n \<and> asset rec = a \<and> cv = conditional_volatility res
       \<and> LjungBox (map snd (dropna (std_resid res))) [10] False
           \<in> set (fst (loop_body lib plt figs a n res))"
proof -
  from assms obtain V v where
    "forecast lib res 1 = Inr V" "index_last_first V = Inr v"
    "one_day_ahead_vol_forecast_pct rec = sqrt v" "model rec = n" "asset rec = a"
    "cv = conditional_volatility res"
    by (auto simp: loop_body_def snd_bind_Inr call_def lift_def ret_def Let_def
        split: prod.splits)
  moreover from assms have "LjungBox (map snd (dropna (std_resid res))) [10] False
           \<in> set (fst (loop_body lib plt figs a n res))"
    by (auto simp: loop_body_def bind_def call_def lift_def ret_def Let_def
        split: prod.splits sum.splits)
  ultimately show ?thesis by blast
qed

lemma loop_body_events:
  "set (fst (loop_body lib plt figs a n res))
     \<subseteq> {Forecast res 1,
         SaveFig (path_join figs (a @ ''_'' @ n @ ''_volatility.png'')),
         LjungBox (map snd (dropna (std_resid res))) [10] False,
         ProbPlot (map snd (dropna (std_resid res))),
         SaveFig (path_join figs (a @ ''_'' @ n @ ''_qqplot.png''))}"
  unfolding loop_body_def Let_def
  by (auto dest!: bind_event simp: call_def lift_def ret_def split: prod.splits)

text \<open>Up to the Ljung-Box call, and what the call's exception does.\<close>

lemma loop_body_ljungbox:
  assumes "forecast lib res 1 = Inr V" and "index_last_first V = Inr v"
    and "index_last (map fst (conditional_volatility res)) = Inr d"
    and "savefig plt (path_join figs (a @ ''_'' @ n @ ''_volatility.png'')) = Inr ()"
  shows "\<exists>rest. fst (loop_body lib plt figs a n res)
           = [Forecast res 1, SaveFig (path_join figs (a @ ''_'' @ n @ ''_volatility.png'')),
              LjungBox (map snd (dropna (std_resid res))) [10] False] @ rest"
    and "acorr_ljungbox lib (map snd (dropna (std_resid res))) [10] False = Inl e
      \<Longrightarrow> loop_body lib plt figs a n res
          = ([Forecast res 1, SaveFig (path_join figs (a @ ''_'' @ n @ ''_volatility.png'')),
              LjungBox (map snd (dropna (std_resid res))) [10] False], Inl e)"
proof -
  let ?lb = "call (LjungBox (map snd (dropna (std_resid res))) [10] False)
               (acorr_ljungbox lib (map snd (dropna (std_resid res))) [10] False)"
  have u: "loop_body lib plt figs a n res
      = (Forecast res 1 # SaveFig (path_join figs (a @ ''_'' @ n @ ''_volatility.png''))
           # fst (bind ?lb k), snd (bind ?lb k))" if
    "k = (\<lambda>result.
      bind (lift (unpack2 result)) (\<lambda>(lb_stat, lb_p).
      bind (call (ProbPlot (map snd (dropna (std_resid res))))
             (probplot plt (map snd (dropna (std_resid res))))) (\<lambda>plotted.
      bind (lift (getitem0 lb_p)) (\<lambda>lb_p0.
      bind (lift (format_f lb_p0)) (\<lambda>title.
      bind (call (SaveFig (path_join figs (a @ ''_'' @ n @ ''_qqplot.png'')))
             (savefig plt (path_join figs (a @ ''_'' @ n @ ''_qqplot.png'')))) (\<lambda>saved.
      ret (\<lparr>asset = a, model = n, last_date = d,
              one_day_ahead_vol_forecast_pct = sqrt v\<rparr>, conditional_volatility res)))))))"
    for k
    unfolding loop_body_def Let_def that
    by (simp only: bind_call_Inr [OF assms(1)] bind_call_Inr [OF assms(4)]
        assms(2) assms(3) bind_lift_Inr fst_conv snd_conv)
  from bind_prefix [of ?lb] u
  show "\<exists>rest. fst (loop_body lib plt figs a n res)
           = [Forecast res 1, SaveFig (path_join figs (a @ ''_'' @ n @ ''_volatility.png'')),
              LjungBox (map snd (dropna (std_resid res))) [10] False] @ rest"
    by (auto simp: call_def)
  show "loop_body lib plt figs a n res
          = ([Forecast res 1, SaveFig (path_join figs (a @ ''_'' @ n @ ''_volatility.png'')),
              LjungBox (map snd (dropna (std_resid res))) [10] False], Inl e)"
    if "acorr_ljungbox lib (map snd (dropna (std_resid res))) [10] False = Inl e"
    using u by (simp add: bind_call_Inl [OF that])
qed

lemma model_loop_Inr:
  "snd (model_loop lib plt figs a ms) = Inr (recs, cvs) \<Longrightarrow>
     list_all2 (\<lambda>rec (n, res). \<exists>V v. forecast lib res 1 = Inr V \<and> index_last_first V = Inr v
           \<and> one_day_ahead_vol_forecast_pct rec = sqrt v \<and> model rec = n \<and> asset rec = a) recs ms
     \<and> cvs = map (\<lambda>(n, res). (n, conditional_volatility res)) ms
     \<and> (\<forall>res \<in> snd ` set ms. LjungBox (map snd (dropna (std_resid res))) [10] False
           \<in> set (fst (model_loop lib plt figs a ms)))"
proof (induction ms arbitrary: recs cvs)
  case Nil
  then show ?case by (simp add: ret_def)
next
  case (Cons m ms)
  obtain n res where m: "m = (n, res)" by (cases m)
  from Cons.prems obtain rec cv recs' cvs' where
    b: "snd (loop_body lib plt figs a n res) = Inr (rec, cv)" and
    l: "snd (model_loop lib plt figs a ms) = Inr (recs', cvs')" and
    e: "recs = rec # recs'" "cvs = (n, cv) # cvs'"
    by (auto simp: m snd_bind_Inr ret_def split: prod.splits)
  have log: "fst (model_loop lib plt figs a (m # ms))
               = fst (loop_body lib plt figs a n res) @ fst (model_loop lib plt figs a ms)"
    using b l by (simp add: m bind_def ret_def)
  from loop_body_Inr [OF b] Cons.IH [OF l] show ?case
    unfolding log by (auto simp: m e)
qed

lemma model_loop_events:
  "ev \<in> set (fst (model_loop lib plt figs a ms))
     \<Longrightarrow> \<exists>(n, res) \<in> set ms. ev \<in> set (fst (loop_body lib plt figs a n res))"
proof (induction ms)
  case Nil
  then show ?case by (simp add: ret_def)
next
  case (Cons m ms)
  obtain n res where m: "m = (n, res)" by (cases m)
  from Cons.prems have "ev \<in> set (fst (loop_body lib plt figs a n res))
      \<or> ev \<in> set (fst (model_loop lib plt figs a ms))"
    by (auto simp: m bind_def ret_def split: sum.splits prod.splits)
  then show ?case
    using Cons.IH by (auto simp: m)
qed

lemma model_loop_prefix:
  "\<exists>rest. fst (model_loop lib plt figs a ((n, res) # ms))
           = fst (loop_body lib plt figs a n res) @ rest"
  by (simp add: bind_prefix del: bind_Inl bind_Inr)

lemma dropna_clean: "dropna (map (\<lambda>(d, x). (d, Some x)) s) = s"
  by (induction s) auto

lemma fit_garch_models_unfold:
  "fit_garch_models lib plt returns a figs =
     bind (call (ArchFit garch11 (mul (dropna returns) 100)) (fit lib garch11 (mul (dropna returns) 100))) (\<lambda>g.
     bind (call (ArchFit egarch (mul (dropna returns) 100)) (fit lib egarch (mul (dropna returns) 100))) (\<lambda>eg.
     bind (call (ArchFit gjr (mul (dropna returns) 100)) (fit lib gjr (mul (dropna returns) 100))) (\<lambda>gj.
     bind (model_loop lib plt figs a [(''GARCH11'', g), (''EGARCH'', eg), (''GJRGARCH'', gj)])
       (\<lambda>(recs, cvs). ret ([(''GARCH11'', g), (''EGARCH'', eg), (''GJRGARCH'', gj)], recs, cvs)))))"
  by (simp add: fit_garch_models_def Let_def)

lemma model_loop_then_ret:
  "bind (model_loop lib plt figs a ms) (\<lambda>(recs, cvs). ret (ms, recs, cvs))
     = (fst (model_loop lib plt figs a ms),
        map_sum id (\<lambda>(recs, cvs). (ms, recs, cvs)) (snd (model_loop lib plt figs a ms)))"
  by (auto simp: bind_def ret_def split: sum.splits prod.splits)

text \<open>The run once the three fits have returned.\<close>

lemma fit_garch_models_fitted:
  assumes "fit lib garch11 (mul (dropna returns) 100) = Inr g"
    and "fit lib egarch (mul (dropna returns) 100) = Inr eg"
    and "fit lib gjr (mul (dropna returns) 100) = Inr gj"
    and "ms = [(''GARCH11'', g), (''EGARCH'', eg), (''GJRGARCH'', gj)]"
  shows "fit_garch_models lib plt returns a figs
     = (ArchFit garch11 (mul (dropna returns) 100) # ArchFit egarch (mul (dropna returns) 100)
          # ArchFit gjr (mul (dropna returns) 100) # fst (model_loop lib plt figs a ms),
        map_sum id (\<lambda>(recs, cvs). (ms, recs, cvs)) (snd (model_loop lib plt figs a ms)))"
  unfolding fit_garch_models_unfold assms(4)
  by (simp only: bind_call_Inr [OF assms(1)] bind_call_Inr [OF assms(2)]
      bind_call_Inr [OF assms(3)] model_loop_then_ret fst_conv snd_conv)

lemma fit_garch_models_Inr:
  assumes "snd (fit_garch_models lib plt returns a figs) = Inr (ms, recs, cvs)"
  shows "\<exists>g eg gj. fit lib garch11 (mul (dropna returns) 100) = Inr g
           \<and> fit lib egarch (mul (dropna returns) 100) = Inr eg
           \<and> fit lib gjr (mul (dropna returns) 100) = Inr gj
           \<and> ms = [(''GARCH11'', g), (''EGARCH'', eg), (''GJRGARCH'', gj)]
           \<and> snd (model_loop lib plt figs a ms) = Inr (recs, cvs)"
  using assms
  by (auto simp: fit_garch_models_unfold snd_bind_Inr call_def ret_def split: prod.splits)

lemma fit_garch_models_events:
  assumes "ev \<in> set (fst (fit_garch_models lib plt returns a figs))"
  shows "ev \<in> {ArchFit garch11 (mul (dropna returns) 100), ArchFit egarch (mul (dropna returns) 100),
                ArchFit gjr (mul (dropna returns) 100)}
       \<or> (\<exists>g eg gj. fit lib garch11 (mul (dropna returns) 100) = Inr g
             \<and> fit lib egarch (mul (dropna returns) 100) = Inr eg
             \<and> fit lib gjr (mul (dropna returns) 100) = Inr gj
             \<and> ev \<in> set (fst (model_loop lib plt figs a
                   [(''GARCH11'', g), (''EGARCH'', eg), (''GJRGARCH'', gj)])))"
proof -
  let ?r = "mul (dropna returns) 100"
  show ?thesis
  proof (cases "fit lib garch11 ?r")
    case (Inl e)
    with assms show ?thesis
      unfolding fit_garch_models_unfold by (simp add: bind_call_Inl)
  next
    case g: (Inr g)
    show ?thesis
    proof (cases "fit lib egarch ?r")
      case (Inl e)
      with assms g show ?thesis
        unfolding fit_garch_models_unfold by (auto simp: bind_call_Inl bind_call_Inr)
    next
      case eg: (Inr eg)
      show ?thesis
      proof (cases "fit lib gjr ?r")
        case (Inl e)
        with assms g eg show ?thesis
          unfolding fit_garch_models_unfold by (auto simp: bind_call_Inl bind_call_Inr)
      next
        case gj: (Inr gj)
        from assms have "ev \<in> {ArchFit garch11 ?r, ArchFit egarch ?r, ArchFit gjr ?r}
            \<or> ev \<in> set (fst (model_loop lib plt figs a
                   [(''GARCH11'', g), (''EGARCH'', eg), (''GJRGARCH'', gj)]))"
          unfolding fit_garch_models_fitted [OF g eg gj refl] by auto
        with g eg gj show ?thesis by blast
      qed
    qed
  qed
qed

text \<open>A run of \<^verbatim>\<open>fit_garch_models\<close> makes no call of the regime detector.\<close>

lemma fit_garch_models_no_hmm:
  "ScalerFitTransform f \<notin> set (fst (fit_garch_models lib plt returns a figs))"
  "HmmFit k c i s X \<notin> set (fst (fit_garch_models lib plt returns a figs))"
proof -
  have "ev \<in> set (fst (fit_garch_models lib plt returns a figs)) \<Longrightarrow>
      (\<forall>f. ev \<noteq> ScalerFitTransform f) \<and> (\<forall>k c i s X. ev \<noteq> HmmFit k c i s X)" for ev
    using fit_garch_models_events [of ev lib plt returns a figs]
      model_loop_events [of ev lib plt figs a] loop_body_events [of lib plt figs a]
    by (fastforce simp del: model_loop.simps)
  then show "ScalerFitTransform f \<notin> set (fst (fit_garch_models lib plt returns a figs))"
    and "HmmFit k c i s X \<notin> set (fst (fit_garch_models lib plt returns a figs))"
    by blast+
qed

section \<open>Runs on the sample inputs\<close>

lemma sample_loop_body:
  "loop_body lib_ok plt_ok figs a n (sample_result [(0, 1), (2, - 2), (3, 3)])
     = ([Forecast (sample_result [(0, 1), (2, - 2), (3, 3)]) 1,
         SaveFig (path_join figs (a @ ''_'' @ n @ ''_volatility.png'')),
         LjungBox [1, - 2, 3] [10] False, ProbPlot [1, - 2, 3],
         SaveFig (path_join figs (a @ ''_'' @ n @ ''_qqplot.png''))],
        Inr (\<lparr>asset = a, model = n, last_date = 3, one_day_ahead_vol_forecast_pct = 2\<rparr>,
             [(0, Some 1), (2, Some 1), (3, Some 1)]))"
  by (simp add: loop_body_def lib_ok_def plt_ok_def sample_result_def call_def lift_def ret_def
      index_last_first_def index_last_def index_first_def unpack2_def iterate_def getitem0_def
      format_f_def Let_def)

lemma sample_loop_body_checked:
  "loop_body lib_lags_checked plt_ok figs a n (sample_result [(0, 1), (2, - 2), (3, 3)])
     = ([Forecast (sample_result [(0, 1), (2, - 2), (3, 3)]) 1,
         SaveFig (path_join figs (a @ ''_'' @ n @ ''_volatility.png'')),
         LjungBox [1, - 2, 3] [10] False],
        Inl ''ValueError'')"
  by (simp add: loop_body_def lib_lags_checked_def plt_ok_def sample_result_def call_def
      lift_def ret_def index_last_first_def index_last_def index_first_def Let_def)

lemma sample_paths:
  "path_join ''figs'' (''SPY'' @ ''_'' @ ''GARCH11'' @ ''_volatility.png'')
     = ''figs/SPY_GARCH11_volatility.png''"
  "path_join ''figs'' (''SPY'' @ ''_'' @ ''GARCH11'' @ ''_qqplot.png'')
     = ''figs/SPY_GARCH11_qqplot.png''"
  "path_join ''figs'' (''SPY'' @ ''_'' @ ''EGARCH'' @ ''_volatility.png'')
     = ''figs/SPY_EGARCH_volatility.png''"
  "path_join ''figs'' (''SPY'' @ ''_'' @ ''EGARCH'' @ ''_qqplot.png'')
     = ''figs/SPY_EGARCH_qqplot.png''"
  "path_join ''figs'' (''SPY'' @ ''_'' @ ''GJRGARCH'' @ ''_volatility.png'')
     = ''figs/SPY_GJRGARCH_volatility.png''"
  "path_join ''figs'' (''SPY'' @ ''_'' @ ''GJRGARCH'' @ ''_qqplot.png'')
     = ''figs/SPY_GJRGARCH_qqplot.png''"
  by (simp_all add: path_join_def)

lemma short_returns_scaled: "mul (dropna short_returns) 100 = [(0, 1), (2, - 2), (3, 3)]"
  by (simp add: short_returns_def mul_def)

lemma sample_fit_garch_models:
  "fit_garch_models lib_ok plt_ok short_returns ''SPY'' ''figs''
     = ([ArchFit garch11 [(0, 1), (2, - 2), (3, 3)], ArchFit egarch [(0, 1), (2, - 2), (3, 3)],
         ArchFit gjr [(0, 1), (2, - 2), (3, 3)],
         Forecast (sample_result [(0, 1), (2, - 2), (3, 3)]) 1,
         SaveFig ''figs/SPY_GARCH11_volatility.png'',
         LjungBox [1, - 2, 3] [10] False, ProbPlot [1, - 2, 3],
         SaveFig ''figs/SPY_GARCH11_qqplot.png'',
         Forecast (sample_result [(0, 1), (2, - 2), (3, 3)]) 1,
         SaveFig ''figs/SPY_EGARCH_volatility.png'',
         LjungBox [1, - 2, 3] [10] False, ProbPlot [1, - 2, 3],
         SaveFig ''figs/SPY_EGARCH_qqplot.png'',
         Forecast (sample_result [(0, 1), (2, - 2), (3, 3)]) 1,
         SaveFig ''figs/SPY_GJRGARCH_volatility.png'',
         LjungBox [1, - 2, 3] [10] False, ProbPlot [1, - 2, 3],
         SaveFig ''figs/SPY_GJRGARCH_qqplot.png''],
        Inr ([(''GARCH11'', sample_result [(0, 1), (2, - 2), (3, 3)]),
              (''EGARCH'', sample_result [(0, 1), (2, - 2), (3, 3)]),
              (''GJRGARCH'', sample_result [(0, 1), (2, - 2), (3, 3)])],
             [\<lparr>asset = ''SPY'', model = ''GARCH11'', last_date = 3,
                 one_day_ahead_vol_forecast_pct = 2\<rparr>,
              \<lparr>asset = ''SPY'', model = ''EGARCH'', last_date = 3,
                 one_day_ahead_vol_forecast_pct = 2\<rparr>,
              \<lparr>asset = ''SPY'', model = ''GJRGARCH'', last_date = 3,
                 one_day_ahead_vol_forecast_pct = 2\<rparr>],
             [(''GARCH11'', [(0, Some 1), (2, Some 1), (3, Some 1)]),
              (''EGARCH'', [(0, Some 1), (2, Some 1), (3, Some 1)]),
              (''GJRGARCH'', [(0, Some 1), (2, Some 1), (3, Some 1)])]))"
proof -
  have f: "fit lib_ok spec r = Inr (sample_result r)" for spec r
    by (simp add: lib_ok_def)
  show ?thesis
    unfolding fit_garch_models_fitted [OF f f f refl] short_returns_scaled model_loop.simps
      sample_loop_body sample_paths [simplified]
    by (simp add: ret_def path_join_def)
qed

lemma sample_fit_garch_models_checked:
  "fit_garch_models lib_lags_checked plt_ok short_returns ''SPY'' ''figs''
     = ([ArchFit garch11 [(0, 1), (2, - 2), (3, 3)], ArchFit egarch [(0, 1), (2, - 2), (3, 3)],
         ArchFit gjr [(0, 1), (2, - 2), (3, 3)],
         Forecast (sample_result [(0, 1), (2, - 2), (3, 3)]) 1,
         SaveFig ''figs/SPY_GARCH11_volatility.png'',
         LjungBox [1, - 2, 3] [10] False],
        Inl ''ValueError'')"
proof -
  have f: "fit lib_lags_checked spec r = Inr (sample_result r)" for spec r
    by (simp add: lib_lags_checked_def)
  show ?thesis
    unfolding fit_garch_models_fitted [OF f f f refl] short_returns_scaled model_loop.simps
      sample_loop_body_checked
    by (simp add: path_join_def)
qed

section \<open>The evaluator\<close>

lemma add_errors_simps:
  "model (add_errors t row) = model row"
  "one_day_ahead_vol_forecast_pct (add_errors t row) = one_day_ahead_vol_forecast_pct row"
  "realized_vol_tail_pct (add_errors t row) = t"
  "abs_err (add_errors t row) = \<bar>one_day_ahead_vol_forecast_pct row - t\<bar>"
  "sq_err (add_errors t row) = (one_day_ahead_vol_forecast_pct row - t)\<^sup>2"
  by (simp_all add: add_errors_def forecast_record.defs error_row.defs)

lemma dropna_empty: "dropna s = [] \<longleftrightarrow> (\<forall>x \<in> set s. snd x = None)"
  by (induction s rule: dropna.induct) auto

lemma dropna_last:
  "dropna s \<noteq> [] \<Longrightarrow>
     \<exists>pre d v post. s = pre @ (d, Some v) # post \<and> (\<forall>x \<in> set post. snd x = None)
        \<and> last (dropna s) = (d, v)"
proof (induction s rule: dropna.induct)
  case 1
  then show ?case by simp
next
  case (2 d s)
  then obtain pre d' v post where
    "s = pre @ (d', Some v) # post" "\<forall>x \<in> set post. snd x = None" "last (dropna s) = (d', v)"
    by auto
  then have "(d, None) # s = ((d, None) # pre) @ (d', Some v) # post
      \<and> (\<forall>x \<in> set post. snd x = None) \<and> last (dropna ((d, None) # s)) = (d', v)"
    by simp
  then show ?case by blast
next
  case (3 d x s)
  show ?case
  proof (cases "dropna s = []")
    case True
    then have "(d, Some x) # s = [] @ (d, Some x) # s \<and> (\<forall>y \<in> set s. snd y = None)
        \<and> last (dropna ((d, Some x) # s)) = (d, x)"
      by (simp add: dropna_empty)
    then show ?thesis by blast
  next
    case False
    with 3 obtain pre d' v post where
      "s = pre @ (d', Some v) # post" "\<forall>x \<in> set post. snd x = None" "last (dropna s) = (d', v)"
      by auto
    with False have "(d, Some x) # s = ((d, Some x) # pre) @ (d', Some v) # post
        \<and> (\<forall>x \<in> set post. snd x = None) \<and> last (dropna ((d, Some x) # s)) = (d', v)"
      by simp
    then show ?thesis by blast
  qed
qed

lemma evaluate_forecasts_Inr:
  assumes "evaluate_forecasts dfs rv = Inr summary"
  shows "dfs \<noteq> [] \<and> dropna rv \<noteq> []
       \<and> summary = summarise (map (add_errors (snd (last (dropna rv)) * 100)) (concat dfs))"
  using assms
  by (auto simp: evaluate_forecasts_def pd_concat_def index_last_def Let_def
      split: if_splits prod.splits)

lemma mean_nonneg: "(\<forall>x \<in> set xs. 0 \<le> x) \<Longrightarrow> 0 \<le> mean xs"
  by (simp add: mean_def sum_list_nonneg)

lemma mean_zero: "(\<forall>x \<in> set xs. x = 0) \<Longrightarrow> mean xs = 0"
proof -
  assume "\<forall>x \<in> set xs. x = 0"
  then have "sum_list xs = 0" by (induction xs) auto
  then show ?thesis by (simp add: mean_def)
qed

lemma summarise_row:
  assumes "s \<in> set (summarise df)"
  shows "summary_model s \<in> model ` set df
       \<and> mean_abs_err s = mean (map abs_err (filter (\<lambda>row. model row = summary_model s) df))
       \<and> rmse s = sqrt (mean (map sq_err (filter (\<lambda>row. model row = summary_model s) df)))"
  using assms by (auto simp: summarise_def groupby_model_def)

lemma summarise_models: "map summary_model (summarise df) = sort (remdups (map model df))"
  by (simp add: summarise_def groupby_model_def comp_def)

lemma sample_evaluate_forecasts:
  "evaluate_forecasts [sample_forecasts] sample_rv
     = Inr [\<lparr>summary_model = ''EGARCH'', mean_abs_err = 0, rmse = 0\<rparr>,
            \<lparr>summary_model = ''GARCH11'', mean_abs_err = 1, rmse = 1\<rparr>]"
  by (simp add: evaluate_forecasts_def pd_concat_def index_last_def summarise_def
      groupby_model_def add_errors_simps mean_def sample_forecasts_def sample_rv_def
      less_eq_char_def less_char_def)

section \<open>The regime detector\<close>

lemma fit_hmm_regimes_unfold:
  "fit_hmm_regimes lib plt returns n_states a figs =
     bind (call (ScalerFitTransform (map (\<lambda>(d, ret). (ret, ret\<^sup>2)) (dropna returns)))
             (fit_transform lib (map (\<lambda>(d, ret). (ret, ret\<^sup>2)) (dropna returns)))) (\<lambda>X.
     bind (call (HmmFit n_states ''full'' 200 42 X) (hmm_fit lib n_states ''full'' 200 42 X))
       (\<lambda>hmm.
     bind (call (HmmPredict X) (predict lib hmm X)) (\<lambda>hidden_states.
     bind (call (HmmPredictProba X) (predict_proba lib hmm X)) (\<lambda>probs.
     bind (lift (columns_below n_states probs)) (\<lambda>plotted.
     bind (call (SaveFig (path_join figs (a @ ''_regime_probs.png'')))
             (savefig plt (path_join figs (a @ ''_regime_probs.png'')))) (\<lambda>saved.
     bind (lift (masks_below n_states (map fst (dropna returns)) hidden_states)) (\<lambda>plotted.
     bind (call (SaveFig (path_join figs (a @ ''_regime_scatter.png'')))
             (savefig plt (path_join figs (a @ ''_regime_scatter.png'')))) (\<lambda>saved.
     bind (lift (entries_below n_states (transmat hmm))) (\<lambda>plotted.
     bind (call (SaveFig (path_join figs (a @ ''_transition_matrix.png'')))
             (savefig plt (path_join figs (a @ ''_transition_matrix.png'')))) (\<lambda>saved.
     bind (lift (frame_of (map fst (dropna returns)) hidden_states)) (\<lambda>regime_df.
     bind (lift (frame_of_rows (map fst (dropna returns)) n_states probs)) (\<lambda>posterior_df.
     ret \<lparr>fitted = hmm,
          posterior_probs = posterior_df,
          regime_series = regime_df,
          trans_mat = transmat hmm\<rparr>))))))))))))"
  by (simp add: fit_hmm_regimes_def Let_def)

lemma frame_of_Inr: "frame_of index values = Inr df \<Longrightarrow> df = zip index values"
  by (simp add: frame_of_def split: if_splits)

lemma frame_of_rows_Inr: "frame_of_rows index n rows = Inr df \<Longrightarrow> df = zip index rows"
  by (simp add: frame_of_rows_def split: if_splits)

text \<open>What a run that returns has returned.\<close>

lemma fit_hmm_regimes_Inr:
  assumes "snd (fit_hmm_regimes lib plt returns n_states a figs) = Inr out"
  shows "\<exists>X hs ps.
           fit_transform lib (map (\<lambda>(d, ret). (ret, ret\<^sup>2)) (dropna returns)) = Inr X
         \<and> hmm_fit lib n_states ''full'' 200 42 X = Inr (fitted out)
         \<and> predict lib (fitted out) X = Inr hs
         \<and> predict_proba lib (fitted out) X = Inr ps
         \<and> regime_series out = zip (map fst (dropna returns)) hs
         \<and> posterior_probs out = zip (map fst (dropna returns)) ps
         \<and> trans_mat out = transmat (fitted out)"
  using assms unfolding fit_hmm_regimes_unfold
  by (auto simp: snd_bind_Inr call_def lift_def ret_def
      dest!: frame_of_Inr frame_of_rows_Inr)

text \<open>The calls after the scaler's: the HMM fit first, and no further scaling.\<close>

lemma fit_hmm_regimes_scaled:
  assumes "fit_transform lib (map (\<lambda>(d, ret). (ret, ret\<^sup>2)) (dropna returns)) = Inr X"
  shows "\<exists>rest. fst (fit_hmm_regimes lib plt returns n_states a figs)
           = ScalerFitTransform (map (\<lambda>(d, ret). (ret, ret\<^sup>2)) (dropna returns))
             # HmmFit n_states ''full'' 200 42 X # rest
         \<and> (\<forall>ev \<in> set rest. ev = HmmPredict X \<or> ev = HmmPredictProba X
               \<or> (\<exists>path. ev = SaveFig path))"
proof (cases "hmm_fit lib n_states ''full'' 200 42 X")
  case (Inl e)
  then show ?thesis
    unfolding fit_hmm_regimes_unfold
    by (simp add: bind_call_Inr [OF assms] bind_call_Inl)
next
  case (Inr hmm)
  show ?thesis
    unfolding fit_hmm_regimes_unfold
    by (simp only: bind_call_Inr [OF assms] bind_call_Inr [OF Inr] fst_conv)
      (auto dest!: bind_event simp: call_def lift_def ret_def)
qed

lemma sample_fit_hmm_regimes:
  "fit_hmm_regimes hmm_ok plt_ok sample_returns 2 ''SPY'' ''figs''
     = ([ScalerFitTransform [(1 / 10, 1 / 100), (- 1 / 10, 1 / 100)],
         HmmFit 2 ''full'' 200 42 [(1 / 10, 0), (- 1 / 10, 0)],
         HmmPredict [(1 / 10, 0), (- 1 / 10, 0)],
         HmmPredictProba [(1 / 10, 0), (- 1 / 10, 0)],
         SaveFig ''figs/SPY_regime_probs.png'',
         SaveFig ''figs/SPY_regime_scatter.png'',
         SaveFig ''figs/SPY_transition_matrix.png''],
        Inr \<lparr>fitted = sample_hmm [(1 / 10, 0), (- 1 / 10, 0)],
             posterior_probs = [(0, [1, 0]), (2, [1, 0])],
             regime_series = [(0, 0), (2, 0)],
             trans_mat = [[1, 0], [0, 1]]\<rparr>)"
  by (simp add: fit_hmm_regimes_unfold sample_returns_def power2_eq_square hmm_ok_def plt_ok_def
      mean_def call_def lift_def ret_def sample_hmm_def path_join_def columns_below_def
      masks_below_def entries_below_def frame_of_def frame_of_rows_def)

section \<open>Claims\<close>

subsection \<open>C1: a failed fit of one GARCH variant\<close>

text \<open>
  C1, as stated: if the fit of one GARCH variant fails, \<^verbatim>\<open>fit_garch_models\<close> still
  completes the fits of the other variants and the HMM fit, and the caller receives
  a partial result set with a record of the fits that failed.

  This fails. With an EGARCH fit that raises, the run consists of the GARCH(1,1)
  and the EGARCH fit only: the GJR-GARCH fit is never called, no result is
  returned, and in \<^verbatim>\<open>main\<close> no HMM fit is started.
\<close>

theorem fit_garch_models_C1_counterexample:
  "fit_garch_models lib_egarch_fails plt_ok short_returns ''SPY'' ''figs''
     = ([ArchFit garch11 [(0, 1), (2, - 2), (3, 3)], ArchFit egarch [(0, 1), (2, - 2), (3, 3)]],
        Inl ''ConvergenceError'')
   \<and> main (Inr (short_returns, short_returns)) lib_egarch_fails hmm_ok plt_ok ''base''
     = ([ArchFit garch11 [(0, 1), (2, - 2), (3, 3)], ArchFit egarch [(0, 1), (2, - 2), (3, 3)]],
        Inl ''ConvergenceError'')"
proof -
  have r: "mul (dropna short_returns) 100 = [(0, 1), (2, - 2), (3, 3)]"
    by (simp add: short_returns_def mul_def)
  have g: "fit lib_egarch_fails garch11 r = Inr (sample_result r)" for r
    by (simp add: lib_egarch_fails_def garch11_def)
  have e: "fit lib_egarch_fails egarch r = Inl ''ConvergenceError''" for r
    by (simp add: lib_egarch_fails_def egarch_def)
  have run: "fit_garch_models lib_egarch_fails plt_ok short_returns ''SPY'' figs
     = ([ArchFit garch11 [(0, 1), (2, - 2), (3, 3)], ArchFit egarch [(0, 1), (2, - 2), (3, 3)]],
        Inl ''ConvergenceError'')" for figs
    unfolding fit_garch_models_unfold r
    by (simp add: bind_call_Inr [OF g] bind_call_Inl [OF e])
  have "main (Inr (short_returns, short_returns)) lib_egarch_fails hmm_ok plt_ok ''base''
     = ([ArchFit garch11 [(0, 1), (2, - 2), (3, 3)], ArchFit egarch [(0, 1), (2, - 2), (3, 3)]],
        Inl ''ConvergenceError'')"
    unfolding main_def Let_def bind_lift_Inr by (simp add: run)
  with run show ?thesis by simp
qed

text \<open>
  C1, amended: \<^verbatim>\<open>fit_garch_models\<close> fits the variants in the order GARCH(1,1),
  EGARCH, GJR-GARCH and has no handler. The first fit that raises ends the run:
  its exception is raised to the caller, no later variant is fitted and no result is
  returned. In \<^verbatim>\<open>main\<close> an exception of either of the two \<^verbatim>\<open>fit_garch_models\<close>
  calls (SPY, then BTC) ends the pipeline with the calls made so far, and none of
  them is a call of the regime detector: no HMM fit is started.
\<close>

theorem fit_garch_models_first_failure:
  assumes "r = mul (dropna returns) 100"
    and "figs = path_join (path_join base ''results'') ''figures''"
  shows "(fit lib garch11 r = Inl e \<longrightarrow>
            fit_garch_models lib plt returns a dir = ([ArchFit garch11 r], Inl e))
       \<and> (fit lib garch11 r = Inr g \<and> fit lib egarch r = Inl e \<longrightarrow>
            fit_garch_models lib plt returns a dir
              = ([ArchFit garch11 r, ArchFit egarch r], Inl e))
       \<and> (fit lib garch11 r = Inr g \<and> fit lib egarch r = Inr eg \<and> fit lib gjr r = Inl e \<longrightarrow>
            fit_garch_models lib plt returns a dir
              = ([ArchFit garch11 r, ArchFit egarch r, ArchFit gjr r], Inl e))
       \<and> (snd (fit_garch_models lib plt returns ''SPY'' figs) = Inl e \<longrightarrow>
            main (Inr (returns, btc)) lib hlib plt base
              = (fst (fit_garch_models lib plt returns ''SPY'' figs), Inl e)
            \<and> ScalerFitTransform frame \<notin> set (fst (main (Inr (returns, btc)) lib hlib plt base))
            \<and> HmmFit k c i s X \<notin> set (fst (main (Inr (returns, btc)) lib hlib plt base)))
       \<and> (snd (fit_garch_models lib plt returns ''SPY'' figs) = Inr spy
          \<and> snd (fit_garch_models lib plt btc ''BTC'' figs) = Inl e \<longrightarrow>
            main (Inr (returns, btc)) lib hlib plt base
              = (fst (fit_garch_models lib plt returns ''SPY'' figs)
                   @ fst (fit_garch_models lib plt btc ''BTC'' figs), Inl e)
            \<and> ScalerFitTransform frame \<notin> set (fst (main (Inr (returns, btc)) lib hlib plt base))
            \<and> HmmFit k c i s X \<notin> set (fst (main (Inr (returns, btc)) lib hlib plt base)))"
proof -
  have first: "fit_garch_models lib plt returns a dir = ([ArchFit garch11 r], Inl e)"
    if "fit lib garch11 r = Inl e"
    using that unfolding fit_garch_models_unfold assms by (simp add: bind_call_Inl)
  have second: "fit_garch_models lib plt returns a dir
      = ([ArchFit garch11 r, ArchFit egarch r], Inl e)"
    if "fit lib garch11 r = Inr g \<and> fit lib egarch r = Inl e"
    using that unfolding fit_garch_models_unfold assms
    by (simp add: bind_call_Inl bind_call_Inr)
  have third: "fit_garch_models lib plt returns a dir
      = ([ArchFit garch11 r, ArchFit egarch r, ArchFit gjr r], Inl e)"
    if "fit lib garch11 r = Inr g \<and> fit lib egarch r = Inr eg \<and> fit lib gjr r = Inl e"
    using that unfolding fit_garch_models_unfold assms
    by (simp add: bind_call_Inl bind_call_Inr)
  have spy_fails: "main (Inr (returns, btc)) lib hlib plt base
      = (fst (fit_garch_models lib plt returns ''SPY'' figs), Inl e)"
    if "snd (fit_garch_models lib plt returns ''SPY'' figs) = Inl e"
    using that unfolding main_def Let_def bind_lift_Inr assms(2)
    by (simp add: bind_raise)
  have btc_fails: "main (Inr (returns, btc)) lib hlib plt base
      = (fst (fit_garch_models lib plt returns ''SPY'' figs)
           @ fst (fit_garch_models lib plt btc ''BTC'' figs), Inl e)"
    if "snd (fit_garch_models lib plt returns ''SPY'' figs) = Inr spy
        \<and> snd (fit_garch_models lib plt btc ''BTC'' figs) = Inl e"
  proof -
    obtain spy_models spy_fc spy_cond_vol where spy: "spy = (spy_models, spy_fc, spy_cond_vol)"
      by (cases spy)
    from that show ?thesis
      unfolding main_def Let_def bind_lift_Inr assms(2) spy
      by (simp add: bind_return bind_raise)
  qed
  have quiet: "ScalerFitTransform frame \<notin> set (fst (fit_garch_models lib plt rs a' figs))
      \<and> HmmFit k c i s X \<notin> set (fst (fit_garch_models lib plt rs a' figs))" for rs a'
    by (simp only: fit_garch_models_no_hmm simp_thms)
  from first second third spy_fails btc_fails quiet [of returns "''SPY''"] quiet [of btc "''BTC''"]
  show ?thesis
    by (simp del: model_loop.simps)
qed

text \<open>C1, witness: one run whose EGARCH fit raises for the first asset, and one
  whose fits raise for the second asset only.\<close>

theorem fit_garch_models_first_failure_witness:
  "[(0, 1), (2, - 2), (3, 3)] = mul (dropna short_returns) 100
   \<and> ''base/results/figures'' = path_join (path_join ''base'' ''results'') ''figures''
   \<and> fit lib_egarch_fails garch11 [(0, 1), (2, - 2), (3, 3)]
       = Inr (sample_result [(0, 1), (2, - 2), (3, 3)])
   \<and> fit lib_egarch_fails egarch [(0, 1), (2, - 2), (3, 3)] = Inl ''ConvergenceError''
   \<and> fit_garch_models lib_egarch_fails plt_ok short_returns ''SPY'' ''base/results/figures''
       = ([ArchFit garch11 [(0, 1), (2, - 2), (3, 3)], ArchFit egarch [(0, 1), (2, - 2), (3, 3)]],
          Inl ''ConvergenceError'')
   \<and> main (Inr (short_returns, second_returns)) lib_egarch_fails hmm_ok plt_ok ''base''
       = ([ArchFit garch11 [(0, 1), (2, - 2), (3, 3)], ArchFit egarch [(0, 1), (2, - 2), (3, 3)]],
          Inl ''ConvergenceError'')
   \<and> fit_garch_models lib_second_fails plt_ok second_returns ''BTC'' ''base/results/figures''
       = ([ArchFit garch11 [(9, 1)]], Inl ''ConvergenceError'')
   \<and> main (Inr (short_returns, second_returns)) lib_second_fails hmm_ok plt_ok ''base''
       = (fst (fit_garch_models lib_second_fails plt_ok short_returns ''SPY''
                 ''base/results/figures'') @ [ArchFit garch11 [(9, 1)]],
          Inl ''ConvergenceError'')
   \<and> HmmFit 2 ''full'' 200 42 [(1 / 100, 0)]
       \<notin> set (fst (main (Inr (short_returns, second_returns)) lib_second_fails hmm_ok plt_ok
                      ''base''))"
proof -
  have r: "[(0, 1), (2, - 2), (3, 3)] = mul (dropna short_returns) 100"
    by (simp add: short_returns_def mul_def)
  have r2: "[(9, 1)] = mul (dropna second_returns) 100"
    by (simp add: second_returns_def mul_def)
  have figs: "''base/results/figures'' = path_join (path_join ''base'' ''results'') ''figures''"
    by (simp add: path_join_def)
  have g: "fit lib_egarch_fails garch11 [(0, 1), (2, - 2), (3, 3)]
             = Inr (sample_result [(0, 1), (2, - 2), (3, 3)])"
    by (simp add: lib_egarch_fails_def garch11_def)
  have e: "fit lib_egarch_fails egarch [(0, 1), (2, - 2), (3, 3)] = Inl ''ConvergenceError''"
    by (simp add: lib_egarch_fails_def egarch_def)
  note t = fit_garch_models_first_failure [OF r figs, where lib = lib_egarch_fails
      and e = "''ConvergenceError''" and g = "sample_result [(0, 1), (2, - 2), (3, 3)]"
      and plt = plt_ok and btc = second_returns and hlib = hmm_ok]
  from t g e have run: "fit_garch_models lib_egarch_fails plt_ok short_returns a dir
       = ([ArchFit garch11 [(0, 1), (2, - 2), (3, 3)], ArchFit egarch [(0, 1), (2, - 2), (3, 3)]],
          Inl ''ConvergenceError'')" for a dir
    by blast
  then have s: "snd (fit_garch_models lib_egarch_fails plt_ok short_returns ''SPY''
                  ''base/results/figures'') = Inl ''ConvergenceError''"
    by simp
  with t have m: "main (Inr (short_returns, second_returns)) lib_egarch_fails hmm_ok plt_ok ''base''
       = (fst (fit_garch_models lib_egarch_fails plt_ok short_returns ''SPY''
                 ''base/results/figures''), Inl ''ConvergenceError'')"
    by blast
  have f2: "fit lib_second_fails garch11 [(9, 1)] = Inl ''ConvergenceError''"
    by (simp add: lib_second_fails_def)
  have f1: "fit lib_second_fails spec [(0, 1), (2, - 2), (3, 3)]
              = Inr (sample_result [(0, 1), (2, - 2), (3, 3)])" for spec
    by (simp add: lib_second_fails_def)
  note u = fit_garch_models_first_failure [OF r2 figs, where lib = lib_second_fails
      and e = "''ConvergenceError''" and plt = plt_ok]
  from u f2 have run2: "fit_garch_models lib_second_fails plt_ok second_returns a dir
       = ([ArchFit garch11 [(9, 1)]], Inl ''ConvergenceError'')" for a dir
    by blast
  obtain spy where spy: "snd (fit_garch_models lib_second_fails plt_ok short_returns ''SPY''
                  ''base/results/figures'') = Inr spy"
    unfolding fit_garch_models_fitted [OF f1 [unfolded r] f1 [unfolded r] f1 [unfolded r] refl]
      model_loop.simps
    by (simp add: loop_body_def lib_second_fails_def plt_ok_def sample_result_def call_def
        lift_def ret_def index_last_first_def index_last_def index_first_def unpack2_def
        iterate_def getitem0_def format_f_def Let_def r [symmetric])
  note v = fit_garch_models_first_failure [OF r figs, where lib = lib_second_fails
      and e = "''ConvergenceError''" and plt = plt_ok and btc = second_returns and hlib = hmm_ok
      and spy = spy and k = 2 and c = "''full''" and i = 200 and s = 42
      and X = "[(1 / 100, 0)]"]
  have hyp: "snd (fit_garch_models lib_second_fails plt_ok short_returns ''SPY''
                  ''base/results/figures'') = Inr spy
      \<and> snd (fit_garch_models lib_second_fails plt_ok second_returns ''BTC''
                  ''base/results/figures'') = Inl ''ConvergenceError''"
    by (simp add: spy run2)
  from v hyp have "main (Inr (short_returns, second_returns)) lib_second_fails hmm_ok
       plt_ok ''base''
       = (fst (fit_garch_models lib_second_fails plt_ok short_returns ''SPY''
                 ''base/results/figures'')
            @ fst (fit_garch_models lib_second_fails plt_ok second_returns ''BTC''
                 ''base/results/figures''),
          Inl ''ConvergenceError'')"
    and n2: "HmmFit 2 ''full'' 200 42 [(1 / 100, 0)]
       \<notin> set (fst (main (Inr (short_returns, second_returns)) lib_second_fails hmm_ok plt_ok
                      ''base''))"
    by blast+
  then have m2: "main (Inr (short_returns, second_returns)) lib_second_fails hmm_ok
       plt_ok ''base''
       = (fst (fit_garch_models lib_second_fails plt_ok short_returns ''SPY''
                 ''base/results/figures'') @ [ArchFit garch11 [(9, 1)]],
          Inl ''ConvergenceError'')"
    by (simp add: run2)
  from r figs g e run [of "''SPY''" "''base/results/figures''"] m
    run2 [of "''BTC''" "''base/results/figures''"] m2 n2
  show ?thesis by simp
qed

subsection \<open>C3: a series shorter than the Ljung-Box lag count\<close>




subsection \<open>C5: percent scaling and the one-step-ahead forecast\<close>

text \<open>
  C5: the estimator multiplies the non-missing returns by 100 before fitting, and
  the forecast it emits for each variant is the square root of the one-step-ahead
  variance forecast (horizon 1, last row, first column) of the model fitted to that
  scaled series. When \<^verbatim>\<open>fit_garch_models\<close> returns, the three variants were fitted
  on the returns times 100, the forecast records are those of GARCH11, EGARCH and
  GJRGARCH in this order, and each record holds the square root of its model's
  variance forecast.
\<close>

theorem fit_garch_models_forecast_pct:
  assumes "snd (fit_garch_models lib plt returns a figs) = Inr (ms, recs, cvs)"
  shows "map snd (mul (dropna returns) 100) = map (\<lambda>x. x * 100) (map snd (dropna returns))
       \<and> (\<exists>g eg gj.
             fit lib garch11 (mul (dropna returns) 100) = Inr g
           \<and> fit lib egarch (mul (dropna returns) 100) = Inr eg
           \<and> fit lib gjr (mul (dropna returns) 100) = Inr gj
           \<and> ms = [(''GARCH11'', g), (''EGARCH'', eg), (''GJRGARCH'', gj)]
           \<and> map model recs = [''GARCH11'', ''EGARCH'', ''GJRGARCH'']
           \<and> list_all2 (\<lambda>rec res. \<exists>V v. forecast lib res 1 = Inr V
                  \<and> index_last_first V = Inr v
                  \<and> one_day_ahead_vol_forecast_pct rec = sqrt v) recs [g, eg, gj])"
proof -
  have scaled: "map snd (mul (dropna returns) 100)
                  = map (\<lambda>x. x * 100) (map snd (dropna returns))"
    by (simp add: mul_def case_prod_unfold)
  from fit_garch_models_Inr [OF assms] obtain g eg gj where
    f: "fit lib garch11 (mul (dropna returns) 100) = Inr g"
       "fit lib egarch (mul (dropna returns) 100) = Inr eg"
       "fit lib gjr (mul (dropna returns) 100) = Inr gj" and
    ms: "ms = [(''GARCH11'', g), (''EGARCH'', eg), (''GJRGARCH'', gj)]" and
    l: "snd (model_loop lib plt figs a ms) = Inr (recs, cvs)"
    by blast
  from model_loop_Inr [OF l] obtain r1 r2 r3 where
    recs: "recs = [r1, r2, r3]" and
    m: "model r1 = ''GARCH11''" "model r2 = ''EGARCH''" "model r3 = ''GJRGARCH''" and
    v: "\<exists>V v. forecast lib g 1 = Inr V \<and> index_last_first V = Inr v
              \<and> one_day_ahead_vol_forecast_pct r1 = sqrt v"
       "\<exists>V v. forecast lib eg 1 = Inr V \<and> index_last_first V = Inr v
              \<and> one_day_ahead_vol_forecast_pct r2 = sqrt v"
       "\<exists>V v. forecast lib gj 1 = Inr V \<and> index_last_first V = Inr v
              \<and> one_day_ahead_vol_forecast_pct r3 = sqrt v"
    unfolding ms by (auto simp: list_all2_Cons2 simp del: model_loop.simps)
  have "map model recs = [''GARCH11'', ''EGARCH'', ''GJRGARCH'']
     \<and> list_all2 (\<lambda>rec res. \<exists>V v. forecast lib res 1 = Inr V
            \<and> index_last_first V = Inr v
            \<and> one_day_ahead_vol_forecast_pct rec = sqrt v) recs [g, eg, gj]"
    using m v by (simp add: recs)
  with scaled f ms show ?thesis
    by (intro conjI exI [of _ g] exI [of _ eg] exI [of _ gj]) simp_all
qed

text \<open>C5, witness: a run on three returns 0.01, -0.02, 0.03 with variance forecast
  4: the fits receive 1, -2, 3 and every record holds 2.\<close>

theorem fit_garch_models_forecast_pct_witness:
  "snd (fit_garch_models lib_ok plt_ok short_returns ''SPY'' ''figs'')
     = Inr ([(''GARCH11'', sample_result [(0, 1), (2, - 2), (3, 3)]),
             (''EGARCH'', sample_result [(0, 1), (2, - 2), (3, 3)]),
             (''GJRGARCH'', sample_result [(0, 1), (2, - 2), (3, 3)])],
            [\<lparr>asset = ''SPY'', model = ''GARCH11'', last_date = 3,
                one_day_ahead_vol_forecast_pct = 2\<rparr>,
             \<lparr>asset = ''SPY'', model = ''EGARCH'', last_date = 3,
                one_day_ahead_vol_forecast_pct = 2\<rparr>,
             \<lparr>asset = ''SPY'', model = ''GJRGARCH'', last_date = 3,
                one_day_ahead_vol_forecast_pct = 2\<rparr>],
            [(''GARCH11'', [(0, Some 1), (2, Some 1), (3, Some 1)]),
             (''EGARCH'', [(0, Some 1), (2, Some 1), (3, Some 1)]),
             (''GJRGARCH'', [(0, Some 1), (2, Some 1), (3, Some 1)])])
   \<and> (\<exists>g eg gj.
         fit lib_ok garch11 (mul (dropna short_returns) 100) = Inr g
       \<and> fit lib_ok egarch (mul (dropna short_returns) 100) = Inr eg
       \<and> fit lib_ok gjr (mul (dropna short_returns) 100) = Inr gj
       \<and> list_all2 (\<lambda>rec res. \<exists>V v. forecast lib_ok res 1 = Inr V
              \<and> index_last_first V = Inr v
              \<and> one_day_ahead_vol_forecast_pct rec = sqrt v)
           [\<lparr>asset = ''SPY'', model = ''GARCH11'', last_date = 3,
               one_day_ahead_vol_forecast_pct = 2\<rparr>,
            \<lparr>asset = ''SPY'', model = ''EGARCH'', last_date = 3,
               one_day_ahead_vol_forecast_pct = 2\<rparr>,
            \<lparr>asset = ''SPY'', model = ''GJRGARCH'', last_date = 3,
               one_day_ahead_vol_forecast_pct = 2\<rparr>]
           [g, eg, gj])"
proof -
  have s: "snd (fit_garch_models lib_ok plt_ok short_returns ''SPY'' ''figs'')
     = Inr ([(''GARCH11'', sample_result [(0, 1), (2, - 2), (3, 3)]),
             (''EGARCH'', sample_result [(0, 1), (2, - 2), (3, 3)]),
             (''GJRGARCH'', sample_result [(0, 1), (2, - 2), (3, 3)])],
            [\<lparr>asset = ''SPY'', model = ''GARCH11'', last_date = 3,
                one_day_ahead_vol_forecast_pct = 2\<rparr>,
             \<lparr>asset = ''SPY'', model = ''EGARCH'', last_date = 3,
                one_day_ahead_vol_forecast_pct = 2\<rparr>,
             \<lparr>asset = ''SPY'', model = ''GJRGARCH'', last_date = 3,
                one_day_ahead_vol_forecast_pct = 2\<rparr>],
            [(''GARCH11'', [(0, Some 1), (2, Some 1), (3, Some 1)]),
             (''EGARCH'', [(0, Some 1), (2, Some 1), (3, Some 1)]),
             (''GJRGARCH'', [(0, Some 1), (2, Some 1), (3, Some 1)])])"
    by (simp only: sample_fit_garch_models snd_conv)
  from fit_garch_models_forecast_pct [OF s] s show ?thesis by blast
qed

subsection \<open>C9: missing values in the returns\<close>



subsection \<open>C6: the realized-volatility reference\<close>

text \<open>
  C6: the reference of the evaluator is the single most recent non-missing value of
  the realized-volatility series, times 100, and every forecast record is compared
  against that one number. When \<^verbatim>\<open>evaluate_forecasts\<close> returns a summary, the
  series has a last non-missing value \<open>v\<close> (only missing values follow it), the
  summary is computed from the rows of all forecast tables, and in every row the
  reference is \<open>v * 100\<close>, the absolute error is the distance of the row's forecast
  from it and the squared error is the square of that difference.
\<close>

theorem evaluate_forecasts_reference:
  assumes "evaluate_forecasts dfs rv = Inr summary"
  shows "\<exists>pre d v post.
           rv = pre @ (d, Some v) # post \<and> (\<forall>x \<in> set post. snd x = None)
         \<and> summary = summarise (map (add_errors (v * 100)) (concat dfs))
         \<and> (\<forall>row \<in> set (concat dfs).
               realized_vol_tail_pct (add_errors (v * 100) row) = v * 100
             \<and> abs_err (add_errors (v * 100) row)
                 = \<bar>one_day_ahead_vol_forecast_pct row - v * 100\<bar>
             \<and> sq_err (add_errors (v * 100) row)
                 = (one_day_ahead_vol_forecast_pct row - v * 100)\<^sup>2)"
proof -
  from evaluate_forecasts_Inr [OF assms] have
    ne: "dropna rv \<noteq> []" and
    s: "summary = summarise (map (add_errors (snd (last (dropna rv)) * 100)) (concat dfs))"
    by simp_all
  from dropna_last [OF ne] obtain pre d v post where
    rv: "rv = pre @ (d, Some v) # post" "\<forall>x \<in> set post. snd x = None" and
    l: "last (dropna rv) = (d, v)"
    by blast
  from s l have "summary = summarise (map (add_errors (v * 100)) (concat dfs))"
    by simp
  with rv show ?thesis
    by (intro exI [of _ pre] exI [of _ d] exI [of _ v] exI [of _ post])
      (simp add: add_errors_simps)
qed

text \<open>C6, witness: two forecasts, 2 and 3, against a series whose last non-missing
  value is 0.03: the reference is 3.\<close>

theorem evaluate_forecasts_reference_witness:
  "evaluate_forecasts [sample_forecasts] sample_rv
     = Inr [\<lparr>summary_model = ''EGARCH'', mean_abs_err = 0, rmse = 0\<rparr>,
            \<lparr>summary_model = ''GARCH11'', mean_abs_err = 1, rmse = 1\<rparr>]
   \<and> (\<exists>pre d v post.
         sample_rv = pre @ (d, Some v) # post \<and> (\<forall>x \<in> set post. snd x = None)
       \<and> [\<lparr>summary_model = ''EGARCH'', mean_abs_err = 0, rmse = 0\<rparr>,
          \<lparr>summary_model = ''GARCH11'', mean_abs_err = 1, rmse = 1\<rparr>]
           = summarise (map (add_errors (v * 100)) (concat [sample_forecasts]))
       \<and> (\<forall>row \<in> set (concat [sample_forecasts]).
             realized_vol_tail_pct (add_errors (v * 100) row) = v * 100
           \<and> abs_err (add_errors (v * 100) row)
               = \<bar>one_day_ahead_vol_forecast_pct row - v * 100\<bar>
           \<and> sq_err (add_errors (v * 100) row)
               = (one_day_ahead_vol_forecast_pct row - v * 100)\<^sup>2))"
  using evaluate_forecasts_reference [OF sample_evaluate_forecasts] sample_evaluate_forecasts
  by (rule conjI [rotated])

subsection \<open>C7: the error metrics are not negative, and zero on exact forecasts\<close>

text \<open>
  C7: for every collection of forecast records and realized reference, the mean
  absolute error and the RMSE of every model in the summary of
  \<^verbatim>\<open>evaluate_forecasts\<close> are not negative; and if all forecasts of a model equal
  the reference (the last non-missing realized volatility times 100), both are 0.
  The summary has one row for each model of the records.
\<close>

theorem evaluate_forecasts_nonneg:
  assumes "evaluate_forecasts dfs rv = Inr summary" and "s \<in> set summary"
  shows "0 \<le> mean_abs_err s \<and> 0 \<le> rmse s
       \<and> ((\<forall>row \<in> set (concat dfs). model row = summary_model s \<longrightarrow>
              one_day_ahead_vol_forecast_pct row = snd (last (dropna rv)) * 100)
            \<longrightarrow> mean_abs_err s = 0 \<and> rmse s = 0)
       \<and> map summary_model summary = sort (remdups (map model (concat dfs)))"
proof -
  let ?t = "snd (last (dropna rv)) * 100"
  let ?df = "map (add_errors ?t) (concat dfs)"
  let ?g = "filter (\<lambda>row. model row = summary_model s) ?df"
  from evaluate_forecasts_Inr [OF assms(1)] have sm: "summary = summarise ?df"
    by simp
  with assms(2) summarise_row [of s ?df] have
    mae: "mean_abs_err s = mean (map abs_err ?g)" and
    rm: "rmse s = sqrt (mean (map sq_err ?g))"
    by simp_all
  have "0 \<le> mean (map abs_err ?g)"
    by (rule mean_nonneg) (auto simp: add_errors_simps)
  moreover have "0 \<le> mean (map sq_err ?g)"
    by (rule mean_nonneg) (auto simp: add_errors_simps)
  ultimately have nonneg: "0 \<le> mean_abs_err s \<and> 0 \<le> rmse s"
    by (simp add: mae rm)
  have zero: "mean_abs_err s = 0 \<and> rmse s = 0"
    if eq: "\<forall>row \<in> set (concat dfs). model row = summary_model s \<longrightarrow>
              one_day_ahead_vol_forecast_pct row = ?t"
  proof -
    have "mean (map abs_err ?g) = 0"
      by (rule mean_zero) (use eq in \<open>auto simp: add_errors_simps\<close>)
    moreover have "mean (map sq_err ?g) = 0"
      by (rule mean_zero) (use eq in \<open>auto simp: add_errors_simps\<close>)
    ultimately show ?thesis by (simp add: mae rm)
  qed
  have "map summary_model summary = sort (remdups (map model (concat dfs)))"
    by (simp add: sm summarise_models comp_def add_errors_simps)
  with nonneg zero show ?thesis by blast
qed

text \<open>C7, witness: the EGARCH forecast 3 equals the reference 3; its row of the
  summary has mean absolute error 0 and RMSE 0.\<close>

theorem evaluate_forecasts_nonneg_witness:
  "evaluate_forecasts [sample_forecasts] sample_rv
     = Inr [\<lparr>summary_model = ''EGARCH'', mean_abs_err = 0, rmse = 0\<rparr>,
            \<lparr>summary_model = ''GARCH11'', mean_abs_err = 1, rmse = 1\<rparr>]
   \<and> \<lparr>summary_model = ''EGARCH'', mean_abs_err = 0, rmse = 0\<rparr>
       \<in> set [\<lparr>summary_model = ''EGARCH'', mean_abs_err = 0, rmse = 0\<rparr>,
              \<lparr>summary_model = ''GARCH11'', mean_abs_err = 1, rmse = 1\<rparr>]
   \<and> map (\<lambda>row. (model row, one_day_ahead_vol_forecast_pct row)) (concat [sample_forecasts])
       = [(''GARCH11'', 2), (''EGARCH'', 3)]
   \<and> snd (last (dropna sample_rv)) * 100 = 3
   \<and> (0::real) \<le> mean_abs_err \<lparr>summary_model = ''EGARCH'', mean_abs_err = 0, rmse = 0\<rparr>
   \<and> mean_abs_err \<lparr>summary_model = ''EGARCH'', mean_abs_err = 0, rmse = 0\<rparr> = 0
   \<and> rmse \<lparr>summary_model = ''EGARCH'', mean_abs_err = 0, rmse = 0\<rparr> = 0"
proof -
  have m: "\<lparr>summary_model = ''EGARCH'', mean_abs_err = 0, rmse = 0\<rparr>
       \<in> set [\<lparr>summary_model = ''EGARCH'', mean_abs_err = 0, rmse = 0\<rparr>,
              \<lparr>summary_model = ''GARCH11'', mean_abs_err = 1, rmse = 1\<rparr>]"
    by simp
  have rows: "map (\<lambda>row. (model row, one_day_ahead_vol_forecast_pct row))
                (concat [sample_forecasts]) = [(''GARCH11'', 2), (''EGARCH'', 3)]"
    by (simp add: sample_forecasts_def)
  have ref: "snd (last (dropna sample_rv)) * 100 = 3"
    by (simp add: sample_rv_def)
  have eq: "\<forall>row \<in> set (concat [sample_forecasts]). model row = ''EGARCH'' \<longrightarrow>
         one_day_ahead_vol_forecast_pct row = snd (last (dropna sample_rv)) * 100"
    by (simp add: sample_forecasts_def sample_rv_def)
  from evaluate_forecasts_nonneg [OF sample_evaluate_forecasts m] eq
  have "0 \<le> mean_abs_err \<lparr>summary_model = ''EGARCH'', mean_abs_err = 0, rmse = 0\<rparr>
      \<and> mean_abs_err \<lparr>summary_model = ''EGARCH'', mean_abs_err = 0, rmse = 0\<rparr> = 0
      \<and> rmse \<lparr>summary_model = ''EGARCH'', mean_abs_err = 0, rmse = 0\<rparr> = 0"
    by simp
  with sample_evaluate_forecasts m rows ref show ?thesis by blast
qed

subsection \<open>C10: a realized-volatility series with no value\<close>




subsection \<open>C8: the features of the regime detector\<close>

text \<open>
  C8: for each timestep (each non-missing return) the regime detector builds a
  2-dimensional feature vector, the return and the squared return, and standardizes
  it; the standardization is computed exactly once, over the whole feature set,
  before the fit begins. The first call of every run is the one call of the scaler,
  on the frame of all (return, squared return) rows. If it raises, nothing else is
  called. Otherwise the next call is the HMM fit on the scaler's output, no further
  scaling follows, and an exception of that fit is the outcome. A run that returns
  returns the model the library fitted to the scaler's output, and the states and
  posterior probabilities the library decoded from that same output with that
  model.
\<close>

theorem fit_hmm_regimes_features:
  assumes "frame = map (\<lambda>(d, ret). (ret, ret\<^sup>2)) (dropna returns)"
  shows "length frame = length (dropna returns)
       \<and> map fst frame = map snd (dropna returns)
       \<and> map snd frame = map (\<lambda>ret. ret\<^sup>2) (map snd (dropna returns))
       \<and> (fit_transform lib frame = Inl e \<longrightarrow>
            fit_hmm_regimes lib plt returns n_states a figs
              = ([ScalerFitTransform frame], Inl e))
       \<and> (fit_transform lib frame = Inr X \<longrightarrow>
            (\<exists>rest. fst (fit_hmm_regimes lib plt returns n_states a figs)
                       = ScalerFitTransform frame # HmmFit n_states ''full'' 200 42 X # rest
                   \<and> (\<forall>ev \<in> set rest. ev = HmmPredict X \<or> ev = HmmPredictProba X
                         \<or> (\<exists>path. ev = SaveFig path))))
       \<and> (fit_transform lib frame = Inr X \<and> hmm_fit lib n_states ''full'' 200 42 X = Inl e \<longrightarrow>
            fit_hmm_regimes lib plt returns n_states a figs
              = ([ScalerFitTransform frame, HmmFit n_states ''full'' 200 42 X], Inl e))
       \<and> (snd (fit_hmm_regimes lib plt returns n_states a figs) = Inr out \<longrightarrow>
            (\<exists>Y hs ps.
                fit_transform lib frame = Inr Y
              \<and> hmm_fit lib n_states ''full'' 200 42 Y = Inr (fitted out)
              \<and> predict lib (fitted out) Y = Inr hs
              \<and> predict_proba lib (fitted out) Y = Inr ps
              \<and> regime_series out = zip (map fst (dropna returns)) hs
              \<and> posterior_probs out = zip (map fst (dropna returns)) ps
              \<and> trans_mat out = transmat (fitted out)))"
proof -
  have shape: "length frame = length (dropna returns)
       \<and> map fst frame = map snd (dropna returns)
       \<and> map snd frame = map (\<lambda>ret. ret\<^sup>2) (map snd (dropna returns))"
    by (simp add: assms case_prod_unfold)
  have raised: "fit_hmm_regimes lib plt returns n_states a figs
      = ([ScalerFitTransform frame], Inl e)"
    if "fit_transform lib frame = Inl e"
    using that unfolding fit_hmm_regimes_unfold assms by (simp add: bind_call_Inl)
  have scaled: "\<exists>rest. fst (fit_hmm_regimes lib plt returns n_states a figs)
                       = ScalerFitTransform frame # HmmFit n_states ''full'' 200 42 X # rest
                   \<and> (\<forall>ev \<in> set rest. ev = HmmPredict X \<or> ev = HmmPredictProba X
                         \<or> (\<exists>path. ev = SaveFig path))"
    if "fit_transform lib frame = Inr X"
    using fit_hmm_regimes_scaled [OF that [unfolded assms]] unfolding assms .
  have unfit: "fit_hmm_regimes lib plt returns n_states a figs
      = ([ScalerFitTransform frame, HmmFit n_states ''full'' 200 42 X], Inl e)"
    if "fit_transform lib frame = Inr X \<and> hmm_fit lib n_states ''full'' 200 42 X = Inl e"
    using that unfolding fit_hmm_regimes_unfold assms
    by (simp add: bind_call_Inl bind_call_Inr)
  have returned: "\<exists>Y hs ps.
                fit_transform lib frame = Inr Y
              \<and> hmm_fit lib n_states ''full'' 200 42 Y = Inr (fitted out)
              \<and> predict lib (fitted out) Y = Inr hs
              \<and> predict_proba lib (fitted out) Y = Inr ps
              \<and> regime_series out = zip (map fst (dropna returns)) hs
              \<and> posterior_probs out = zip (map fst (dropna returns)) ps
              \<and> trans_mat out = transmat (fitted out)"
    if "snd (fit_hmm_regimes lib plt returns n_states a figs) = Inr out"
    using fit_hmm_regimes_Inr [OF that] unfolding assms .
  from shape raised scaled unfit returned show ?thesis by blast
qed

text \<open>C8, witness: two non-missing returns, 0.1 and -0.1, with a scaler that
  centres each column: the squared returns 0.01 become 0, and the model returned is
  the one fitted to the centred rows.\<close>

theorem fit_hmm_regimes_features_witness:
  "[(1 / 10, 1 / 100), (- 1 / 10, 1 / 100)]
     = map (\<lambda>(d, ret). (ret, ret\<^sup>2)) (dropna sample_returns)
   \<and> fit_transform hmm_ok [(1 / 10, 1 / 100), (- 1 / 10, 1 / 100)]
       = Inr [(1 / 10, 0), (- 1 / 10, 0)]
   \<and> snd (fit_hmm_regimes hmm_ok plt_ok sample_returns 2 ''SPY'' ''figs'')
       = Inr \<lparr>fitted = sample_hmm [(1 / 10, 0), (- 1 / 10, 0)],
              posterior_probs = [(0, [1, 0]), (2, [1, 0])],
              regime_series = [(0, 0), (2, 0)],
              trans_mat = [[1, 0], [0, 1]]\<rparr>
   \<and> means (sample_hmm [(1 / 10, 0), (- 1 / 10, 0)]) = [[1 / 10, 0]]
   \<and> (\<exists>rest. fst (fit_hmm_regimes hmm_ok plt_ok sample_returns 2 ''SPY'' ''figs'')
          = ScalerFitTransform [(1 / 10, 1 / 100), (- 1 / 10, 1 / 100)]
            # HmmFit 2 ''full'' 200 42 [(1 / 10, 0), (- 1 / 10, 0)] # rest
        \<and> (\<forall>ev \<in> set rest. ev = HmmPredict [(1 / 10, 0), (- 1 / 10, 0)]
              \<or> ev = HmmPredictProba [(1 / 10, 0), (- 1 / 10, 0)]
              \<or> (\<exists>path. ev = SaveFig path)))
   \<and> (\<exists>Y hs ps.
          fit_transform hmm_ok [(1 / 10, 1 / 100), (- 1 / 10, 1 / 100)] = Inr Y
        \<and> hmm_fit hmm_ok 2 ''full'' 200 42 Y = Inr (sample_hmm [(1 / 10, 0), (- 1 / 10, 0)])
        \<and> predict hmm_ok (sample_hmm [(1 / 10, 0), (- 1 / 10, 0)]) Y = Inr hs
        \<and> predict_proba hmm_ok (sample_hmm [(1 / 10, 0), (- 1 / 10, 0)]) Y = Inr ps
        \<and> [(0, 0), (2, 0)] = zip (map fst (dropna sample_returns)) hs
        \<and> [(0, [1, 0]), (2, [1, 0])] = zip (map fst (dropna sample_returns)) ps)"
proof -
  have f: "[(1 / 10, 1 / 100), (- 1 / 10, 1 / 100)]
     = map (\<lambda>(d, ret). (ret, ret\<^sup>2)) (dropna sample_returns)"
    by (simp add: sample_returns_def power2_eq_square)
  have x: "fit_transform hmm_ok [(1 / 10, 1 / 100), (- 1 / 10, 1 / 100)]
       = Inr [(1 / 10, 0), (- 1 / 10, 0)]"
    by (simp add: hmm_ok_def mean_def)
  have s: "snd (fit_hmm_regimes hmm_ok plt_ok sample_returns 2 ''SPY'' ''figs'')
       = Inr \<lparr>fitted = sample_hmm [(1 / 10, 0), (- 1 / 10, 0)],
              posterior_probs = [(0, [1, 0]), (2, [1, 0])],
              regime_series = [(0, 0), (2, 0)],
              trans_mat = [[1, 0], [0, 1]]\<rparr>"
    by (simp only: sample_fit_hmm_regimes snd_conv)
  have m: "means (sample_hmm [(1 / 10, 0), (- 1 / 10, 0)]) = [[1 / 10, 0]]"
    by (simp add: sample_hmm_def)
  note t = fit_hmm_regimes_features [OF f, where lib = hmm_ok and plt = plt_ok
      and X = "[(1 / 10, 0), (- 1 / 10, 0)]" and n_states = 2 and a = "''SPY''"
      and figs = "''figs''"
      and out = "\<lparr>fitted = sample_hmm [(1 / 10, 0), (- 1 / 10, 0)],
              posterior_probs = [(0, [1, 0]), (2, [1, 0])],
              regime_series = [(0, 0), (2, 0)],
              trans_mat = [[1, 0], [0, 1]]\<rparr>"]
  from t x have log: "\<exists>rest. fst (fit_hmm_regimes hmm_ok plt_ok sample_returns 2 ''SPY'' ''figs'')
          = ScalerFitTransform [(1 / 10, 1 / 100), (- 1 / 10, 1 / 100)]
            # HmmFit 2 ''full'' 200 42 [(1 / 10, 0), (- 1 / 10, 0)] # rest
        \<and> (\<forall>ev \<in> set rest. ev = HmmPredict [(1 / 10, 0), (- 1 / 10, 0)]
              \<or> ev = HmmPredictProba [(1 / 10, 0), (- 1 / 10, 0)]
              \<or> (\<exists>path. ev = SaveFig path))"
    by blast
  let ?out = "\<lparr>fitted = sample_hmm [(1 / 10, 0), (- 1 / 10, 0)],
              posterior_probs = [(0, [1, 0]), (2, [1, 0])],
              regime_series = [(0, 0), (2, 0)],
              trans_mat = [[1, 0], [0, 1]]\<rparr>"
  from t s have "\<exists>Y hs ps.
          fit_transform hmm_ok [(1 / 10, 1 / 100), (- 1 / 10, 1 / 100)] = Inr Y
        \<and> hmm_fit hmm_ok 2 ''full'' 200 42 Y = Inr (fitted ?out)
        \<and> predict hmm_ok (fitted ?out) Y = Inr hs
        \<and> predict_proba hmm_ok (fitted ?out) Y = Inr ps
        \<and> regime_series ?out = zip (map fst (dropna sample_returns)) hs
        \<and> posterior_probs ?out = zip (map fst (dropna sample_returns)) ps
        \<and> trans_mat ?out = transmat (fitted ?out)"
    by blast
  then have "\<exists>Y hs ps.
          fit_transform hmm_ok [(1 / 10, 1 / 100), (- 1 / 10, 1 / 100)] = Inr Y
        \<and> hmm_fit hmm_ok 2 ''full'' 200 42 Y = Inr (sample_hmm [(1 / 10, 0), (- 1 / 10, 0)])
        \<and> predict hmm_ok (sample_hmm [(1 / 10, 0), (- 1 / 10, 0)]) Y = Inr hs
        \<and> predict_proba hmm_ok (sample_hmm [(1 / 10, 0), (- 1 / 10, 0)]) Y = Inr ps
        \<and> [(0, 0), (2, 0)] = zip (map fst (dropna sample_returns)) hs
        \<and> [(0, [1, 0]), (2, [1, 0])] = zip (map fst (dropna sample_returns)) ps"
    unfolding regimes.simps by blast
  with f x s m log show ?thesis by blast
qed

end
